theory Spec2Isabelle
  imports Main "HOL-Library.Sublist" "HOL-Library.AList"
begin

section \<open>Python text\<close>

text \<open>
  A Python \<open>str\<close> is modelled as a \<open>string\<close> whose characters are the code points
  below 256. The helpers below are the string methods the sources call, with Python's
  results on such text.
\<close>

definition py_isspace :: "char \<Rightarrow> bool" where
  "py_isspace c =
     (let n = (of_char c :: nat)
      in (9 \<le> n \<and> n \<le> 13) \<or> (28 \<le> n \<and> n \<le> 32) \<or> n = 133 \<or> n = 160)"

definition strip :: "string \<Rightarrow> string" where
  "strip s = rev (dropWhile py_isspace (rev (dropWhile py_isspace s)))"

fun split_on :: "char \<Rightarrow> string \<Rightarrow> string list" where
  "split_on sep [] = [[]]"
| "split_on sep (c # cs) =
     (if c = sep then [] # split_on sep cs
      else (case split_on sep cs of w # ws \<Rightarrow> (c # w) # ws | [] \<Rightarrow> [[c]]))"

fun py_join :: "string \<Rightarrow> string list \<Rightarrow> string" where
  "py_join sep [] = []"
| "py_join sep [x] = x"
| "py_join sep (x # y # ys) = x @ sep @ py_join sep (y # ys)"

definition startswith :: "string \<Rightarrow> string \<Rightarrow> bool" where
  "startswith s p = prefix p s"

definition endswith :: "string \<Rightarrow> string \<Rightarrow> bool" where
  "endswith s p = suffix p s"

fun find_char :: "char \<Rightarrow> string \<Rightarrow> int" where
  "find_char c [] = - 1"
| "find_char c (x # xs) =
     (if x = c then 0 else (let r = find_char c xs in if r = - 1 then - 1 else r + 1))"

definition rfind_char :: "char \<Rightarrow> string \<Rightarrow> int" where
  "rfind_char c s =
     (let r = find_char c (rev s) in if r = - 1 then - 1 else int (length s) - 1 - r)"

text \<open>The slice \<open>s[a:b]\<close> for \<open>0 \<le> a\<close> and \<open>0 \<le> b\<close>, the only slices the sources take.\<close>

definition slice :: "string \<Rightarrow> int \<Rightarrow> int \<Rightarrow> string" where
  "slice s a b = take (nat b - nat a) (drop (nat a) s)"

definition py_lower_char :: "char \<Rightarrow> char" where
  "py_lower_char c =
     (let n = (of_char c :: nat)
      in if (65 \<le> n \<and> n \<le> 90) \<or> (192 \<le> n \<and> n \<le> 222 \<and> n \<noteq> 215)
         then char_of (n + 32) else c)"

definition lower :: "string \<Rightarrow> string" where
  "lower s = map py_lower_char s"

fun str_nat_fuel :: "nat \<Rightarrow> nat \<Rightarrow> string" where
  "str_nat_fuel 0 n = [char_of (48 + n mod 10)]"
| "str_nat_fuel (Suc k) n =
     (if n < 10 then [char_of (48 + n)]
      else str_nat_fuel k (n div 10) @ [char_of (48 + n mod 10)])"

text \<open>\<open>str(n)\<close> for a natural number: \<open>n\<close> has at most \<open>n + 1\<close> digits.\<close>

definition str_nat :: "nat \<Rightarrow> string" where
  "str_nat n = str_nat_fuel n n"

section \<open>\<open>os.path\<close> on POSIX\<close>

definition os_path_basename :: "string \<Rightarrow> string" where
  "os_path_basename p = rev (takeWhile (\<lambda>c. c \<noteq> CHR ''/'') (rev p))"

definition os_path_dirname :: "string \<Rightarrow> string" where
  "os_path_dirname p =
     (let head = rev (dropWhile (\<lambda>c. c \<noteq> CHR ''/'') (rev p))
      in if head \<noteq> [] \<and> \<not> list_all (\<lambda>c. c = CHR ''/'') head
         then rev (dropWhile (\<lambda>c. c = CHR ''/'') (rev head)) else head)"

definition os_path_join :: "string \<Rightarrow> string \<Rightarrow> string" where
  "os_path_join a b =
     (if startswith b ''/'' then b
      else if a = [] \<or> endswith a ''/'' then a @ b
      else a @ ''/'' @ b)"

definition os_path_isabs :: "string \<Rightarrow> bool" where
  "os_path_isabs s = startswith s ''/''"

definition normpath_step :: "nat \<Rightarrow> string list \<Rightarrow> string \<Rightarrow> string list" where
  "normpath_step initial_slashes new_comps cmp =
     (if cmp = [] \<or> cmp = ''.'' then new_comps
      else if cmp \<noteq> ''..'' \<or> (initial_slashes = 0 \<and> new_comps = [])
              \<or> (new_comps \<noteq> [] \<and> last new_comps = ''..'')
           then new_comps @ [cmp]
      else if new_comps \<noteq> [] then butlast new_comps
      else new_comps)"

definition os_path_normpath :: "string \<Rightarrow> string" where
  "os_path_normpath path =
     (if path = [] then ''.''
      else
        let initial_slashes =
              (if startswith path ''/''
               then (if startswith path ''//'' \<and> \<not> startswith path ''///'' then 2 else 1)
               else (0::nat));
            comps = foldl (normpath_step initial_slashes) [] (split_on CHR ''/'' path);
            joined = replicate initial_slashes CHR ''/'' @ py_join ''/'' comps
        in if joined = [] then ''.'' else joined)"

section \<open>The file system\<close>

text \<open>
  The operating system the services run on is modelled as one tree of regular files and
  directories: a single device, no symbolic links, no permissions, nobody else changing
  it. A directory holds its entries as an association list read with \<open>map_of\<close>. A
  location is the list of entry names that leads from the root to a node.
\<close>

datatype node = File string | Dir "(string \<times> node) list"

datatype kind = KFile | KDir

fun node_kind :: "node \<Rightarrow> kind" where
  "node_kind (File x) = KFile"
| "node_kind (Dir es) = KDir"

fun lookup :: "node \<Rightarrow> string list \<Rightarrow> node option" where
  "lookup n [] = Some n"
| "lookup (File x) (c # cs) = None"
| "lookup (Dir es) (c # cs) = (case map_of es c of None \<Rightarrow> None | Some m \<Rightarrow> lookup m cs)"

definition kind_at :: "node \<Rightarrow> string list \<Rightarrow> kind option" where
  "kind_at t q = map_option node_kind (lookup t q)"

text \<open>Removing the entry at a location; nothing happens when there is no such entry.\<close>

fun fs_del :: "node \<Rightarrow> string list \<Rightarrow> node" where
  "fs_del (Dir es) [c] = Dir (AList.delete c es)"
| "fs_del (Dir es) (c # cs) =
     (case map_of es c of None \<Rightarrow> Dir es | Some m \<Rightarrow> Dir (AList.update c (fs_del m cs) es))"
| "fs_del t q = t"

text \<open>
  Creating or replacing the entry at a location; nothing happens when the location's
  parent is not a directory of the tree.
\<close>

fun fs_put :: "node \<Rightarrow> string list \<Rightarrow> node \<Rightarrow> node" where
  "fs_put (Dir es) [c] n = Dir (AList.update c n es)"
| "fs_put (Dir es) (c # cs) n =
     (case map_of es c of None \<Rightarrow> Dir es | Some m \<Rightarrow> Dir (AList.update c (fs_put m cs n) es))"
| "fs_put t q n = t"

definition fs_set :: "node \<Rightarrow> string list \<Rightarrow> node \<Rightarrow> node" where
  "fs_set t q n = (if q = [] then n else fs_put t q n)"

text \<open>
  The world outside the program: the tree, the working directory of the process, the
  \<open>HOME\<close> variable and the password database read by \<open>os.path.expanduser\<close>, and the
  confirmation dialogs shown so far (title and message).
\<close>

record world =
  root :: node
  cwd :: "string list"
  home :: string
  users :: "(string \<times> string) list"
  prompts :: "(string \<times> string) list"

subsection \<open>Path lookup\<close>

text \<open>
  The kernel walks a path component by component from the root or from the working
  directory: an empty component and \<open>.\<close> stay, \<open>..\<close> goes to the parent, a name goes
  to that entry; every place it passes must be a directory. \<open>trace\<close> lists the places of
  the walk, \<open>locate\<close> gives the place the path ends at (the last component may name an
  entry that does not exist yet) and whether the path was written with a trailing slash.
\<close>

definition step_comp :: "string list \<Rightarrow> string \<Rightarrow> string list" where
  "step_comp cur c =
     (if c = [] \<or> c = ''.'' then cur else if c = ''..'' then butlast cur else cur @ [c])"

fun trace :: "string list \<Rightarrow> string list \<Rightarrow> string list list" where
  "trace cur [] = [cur]"
| "trace cur (c # cs) = cur # trace (step_comp cur c) cs"

definition path_steps :: "string \<Rightarrow> string list \<times> bool" where
  "path_steps s =
     (let cs = split_on CHR ''/'' s;
          cs' = rev (dropWhile (\<lambda>c. c = []) (rev cs))
      in (cs', cs' \<noteq> cs))"

definition final_dot :: "string \<Rightarrow> bool" where
  "final_dot s =
     (case rev (fst (path_steps s)) of [] \<Rightarrow> False | c # cs \<Rightarrow> c = ''.'' \<or> c = ''..'')"

definition locate :: "world \<Rightarrow> string \<Rightarrow> (string list \<times> bool) option" where
  "locate w s =
     (if s = [] then None
      else
        let tr = trace (if os_path_isabs s then [] else cwd w) (fst (path_steps s))
        in if list_all (\<lambda>q. kind_at (root w) q = Some KDir) (butlast tr)
           then Some (last tr, snd (path_steps s)) else None)"

definition os_lookup :: "world \<Rightarrow> string \<Rightarrow> (string list \<times> node) option" where
  "os_lookup w s =
     (case locate w s of
        None \<Rightarrow> None
      | Some (q, slash) \<Rightarrow>
          (case lookup (root w) q of
             None \<Rightarrow> None
           | Some n \<Rightarrow> if slash \<and> node_kind n = KFile then None else Some (q, n)))"

definition os_path_exists :: "world \<Rightarrow> string \<Rightarrow> bool" where
  "os_path_exists w s = (os_lookup w s \<noteq> None)"

definition os_path_isdir :: "world \<Rightarrow> string \<Rightarrow> bool" where
  "os_path_isdir w s = (map_option (node_kind \<circ> snd) (os_lookup w s) = Some KDir)"



definition os_getcwd :: "world \<Rightarrow> string" where
  "os_getcwd w = ''/'' @ py_join ''/'' (cwd w)"

definition os_path_abspath :: "world \<Rightarrow> string \<Rightarrow> string" where
  "os_path_abspath w path =
     os_path_normpath (if os_path_isabs path then path else os_path_join (os_getcwd w) path)"

definition os_path_expanduser :: "world \<Rightarrow> string \<Rightarrow> string" where
  "os_path_expanduser w path =
     (if \<not> startswith path ''~'' then path
      else
        let name = takeWhile (\<lambda>c. c \<noteq> CHR ''/'') (tl path);
            rest = dropWhile (\<lambda>c. c \<noteq> CHR ''/'') (tl path)
        in (case (if name = [] then Some (home w) else map_of (users w) name) of
              None \<Rightarrow> path
            | Some userhome \<Rightarrow>
                (let r = rev (dropWhile (\<lambda>c. c = CHR ''/'') (rev userhome)) @ rest
                 in if r = [] then ''/'' else r)))"

subsection \<open>Exceptions\<close>

text \<open>
  A raised exception is a value: its class and the text \<open>str(e)\<close> gives. The texts
  follow the interpreter's for operating system errors, with the file name between
  plain quotes.
\<close>

datatype exn_class =
    FileNotFoundError | IsADirectoryError | NotADirectoryError | FileExistsError | OSError
  | ShutilError | SameFileError | ValueError | IndexError | IntegrityError | JSONDecodeError
  | RecursionError | OtherException

datatype exn = Exn exn_class string

fun str_exn :: "exn \<Rightarrow> string" where
  "str_exn (Exn c m) = m"

definition quoted :: "string \<Rightarrow> string" where
  "quoted s = [CHR 0x27] @ s @ [CHR 0x27]"

definition enoent :: "string \<Rightarrow> exn" where
  "enoent s = Exn FileNotFoundError (''[Errno 2] No such file or directory: '' @ quoted s)"

definition enotdir :: "string \<Rightarrow> exn" where
  "enotdir s = Exn NotADirectoryError (''[Errno 20] Not a directory: '' @ quoted s)"

definition eisdir :: "string \<Rightarrow> exn" where
  "eisdir s = Exn IsADirectoryError (''[Errno 21] Is a directory: '' @ quoted s)"

definition eexist :: "string \<Rightarrow> exn" where
  "eexist s = Exn FileExistsError (''[Errno 17] File exists: '' @ quoted s)"

definition ebusy :: "string \<Rightarrow> exn" where
  "ebusy s = Exn OSError (''[Errno 16] Device or resource busy: '' @ quoted s)"

definition einval :: "string \<Rightarrow> string \<Rightarrow> exn" where
  "einval s d = Exn OSError (''[Errno 22] Invalid argument: '' @ quoted s @ '' -> '' @ quoted d)"

definition enotempty :: "string \<Rightarrow> string \<Rightarrow> exn" where
  "enotempty s d =
     Exn OSError (''[Errno 39] Directory not empty: '' @ quoted s @ '' -> '' @ quoted d)"

subsection \<open>Operations of \<open>os\<close> and \<open>shutil\<close>\<close>

text \<open>
  Each operation returns the exception it raises, if any, and the world it leaves. An
  operation fails for the reasons the tree itself gives (a missing entry, a file where a
  directory is needed, a directory moved into itself, the root, a path that ends in
  \<open>.\<close> or \<open>..\<close>). Two simplifications: the copy \<open>shutil.copytree\<close> makes of a directory
  into itself before it fails is not represented, and a destination of
  \<open>shutil.copytree\<close> that ends in \<open>.\<close> is refused like an existing one.
\<close>

definition os_remove :: "world \<Rightarrow> string \<Rightarrow> exn option \<times> world" where
  "os_remove w s =
     (case os_lookup w s of
        None \<Rightarrow> (Some (enoent s), w)
      | Some (q, Dir es) \<Rightarrow> (Some (eisdir s), w)
      | Some (q, File x) \<Rightarrow> (None, w\<lparr>root := fs_del (root w) q\<rparr>))"

definition shutil_rmtree :: "world \<Rightarrow> string \<Rightarrow> exn option \<times> world" where
  "shutil_rmtree w s =
     (case os_lookup w s of
        None \<Rightarrow> (Some (enoent s), w)
      | Some (q, File x) \<Rightarrow> (Some (enotdir s), w)
      | Some (q, Dir es) \<Rightarrow>
          if q = [] \<or> final_dot s
          then (Some (ebusy s), w\<lparr>root := fs_set (root w) q (Dir [])\<rparr>)
          else (None, w\<lparr>root := fs_del (root w) q\<rparr>))"

definition os_rename :: "world \<Rightarrow> string \<Rightarrow> string \<Rightarrow> exn option \<times> world" where
  "os_rename w src dst =
     (case os_lookup w src of
        None \<Rightarrow> (Some (enoent src), w)
      | Some (qs, n) \<Rightarrow>
          (case locate w dst of
             None \<Rightarrow> (Some (enoent dst), w)
           | Some (qd, slash) \<Rightarrow>
               if final_dot src \<or> final_dot dst \<or> qs = [] \<or> qd = []
               then (Some (ebusy src), w)
               else if qs = qd then (None, w)
               else if prefix qs qd then (Some (einval src dst), w)
               else if
                 (case lookup (root w) qd of
                    None \<Rightarrow> \<not> (slash \<and> node_kind n = KFile)
                  | Some (File y) \<Rightarrow> node_kind n = KFile \<and> \<not> slash
                  | Some (Dir ds) \<Rightarrow> node_kind n = KDir \<and> ds = [])
               then (None, w\<lparr>root := fs_put (fs_del (root w) qs) qd n\<rparr>)
               else (Some (enotempty src dst), w)))"

fun walk_mk :: "node \<Rightarrow> string list \<Rightarrow> string list \<Rightarrow> node \<times> string list option" where
  "walk_mk t cur [] = (t, Some cur)"
| "walk_mk t cur (c # cs) =
     (if kind_at t cur \<noteq> Some KDir then (t, None)
      else
        let nxt = step_comp cur c
        in walk_mk (if kind_at t nxt = None then fs_put t nxt (Dir []) else t) nxt cs)"

text \<open>\<open>os.makedirs(name)\<close> with \<open>exist_ok=False\<close>: the missing parents are made too.\<close>

definition os_makedirs :: "world \<Rightarrow> string \<Rightarrow> exn option \<times> world" where
  "os_makedirs w s =
     (case rev (fst (path_steps s)) of
        [] \<Rightarrow> (Some (if s = [] then enoent s else eexist s), w)
      | c # parents \<Rightarrow>
          (case walk_mk (root w) (if os_path_isabs s then [] else cwd w) (rev parents) of
             (t, None) \<Rightarrow> (Some (enotdir s), w\<lparr>root := t\<rparr>)
           | (t, Some cur) \<Rightarrow>
               if kind_at t cur \<noteq> Some KDir then (Some (enotdir s), w\<lparr>root := t\<rparr>)
               else if c = ''.'' then (None, w\<lparr>root := t\<rparr>)
               else if kind_at t (step_comp cur c) \<noteq> None then (Some (eexist s), w\<lparr>root := t\<rparr>)
               else (None, w\<lparr>root := fs_put t (step_comp cur c) (Dir [])\<rparr>)))"

definition shutil_copytree :: "world \<Rightarrow> string \<Rightarrow> string \<Rightarrow> exn option \<times> world" where
  "shutil_copytree w src dst =
     (case os_lookup w src of
        None \<Rightarrow> (Some (enoent src), w)
      | Some (qs, File x) \<Rightarrow> (Some (enotdir src), w)
      | Some (qs, Dir es) \<Rightarrow>
          if final_dot dst then (Some (eexist dst), w)
          else
            (case os_makedirs w dst of
               (Some e, w') \<Rightarrow> (Some e, w')
             | (None, w') \<Rightarrow>
                 (case locate w' dst of
                    None \<Rightarrow> (Some (enoent dst), w')
                  | Some (qd, slash) \<Rightarrow>
                      if prefix qs qd
                      then (Some (Exn ShutilError (''[Errno 36] File name too long: '' @ quoted dst)), w')
                      else (None, w'\<lparr>root := fs_set (root w') qd (Dir es)\<rparr>))))"

definition samefile :: "world \<Rightarrow> string \<Rightarrow> string \<Rightarrow> bool" where
  "samefile w a b =
     (case (os_lookup w a, os_lookup w b) of
        (Some (qa, na), Some (qb, nb)) \<Rightarrow> qa = qb
      | _ \<Rightarrow> False)"

definition shutil_copy2 :: "world \<Rightarrow> string \<Rightarrow> string \<Rightarrow> exn option \<times> world" where
  "shutil_copy2 w src dst0 =
     (let dst = (if os_path_isdir w dst0 then os_path_join dst0 (os_path_basename src) else dst0)
      in if samefile w src dst
         then (Some (Exn SameFileError (quoted src @ '' and '' @ quoted dst @ '' are the same file'')), w)
         else
           (case os_lookup w src of
              None \<Rightarrow> (Some (enoent src), w)
            | Some (qs, Dir es) \<Rightarrow> (Some (eisdir src), w)
            | Some (qs, File x) \<Rightarrow>
                (case locate w dst of
                   None \<Rightarrow> (Some (enoent dst), w)
                 | Some (qd, slash) \<Rightarrow>
                     if slash \<or> final_dot dst \<or> qd = [] \<or> kind_at (root w) qd = Some KDir
                     then (Some (eisdir dst), w)
                     else (None, w\<lparr>root := fs_put (root w) qd (File x)\<rparr>))))"

definition destinsrc :: "world \<Rightarrow> string \<Rightarrow> string \<Rightarrow> bool" where
  "destinsrc w src dst =
     (let s = os_path_abspath w src; d = os_path_abspath w dst;
          s' = (if endswith s ''/'' then s else s @ ''/'');
          d' = (if endswith d ''/'' then d else d @ ''/'')
      in startswith d' s')"

definition shutil_move :: "world \<Rightarrow> string \<Rightarrow> string \<Rightarrow> exn option \<times> world" where
  "shutil_move w src dst =
     (if os_path_isdir w dst \<and> samefile w src dst then os_rename w src dst
      else
        let real_dst =
              (if os_path_isdir w dst
               then os_path_join dst
                      (os_path_basename (rev (dropWhile (\<lambda>c. c = CHR ''/'') (rev src))))
               else dst)
        in if os_path_isdir w dst \<and> os_path_exists w real_dst
           then (Some (Exn ShutilError
                   (''Destination path '' @ quoted real_dst @ '' already exists'')), w)
           else
             (case os_rename w src real_dst of
                (None, w') \<Rightarrow> (None, w')
              | (Some e, w') \<Rightarrow>
                  if os_path_isdir w src then
                    (if destinsrc w src dst
                     then (Some (Exn ShutilError
                             (''Cannot move a directory '' @ quoted src @ '' into itself ''
                              @ quoted dst @ ''.'')), w)
                     else
                       (case shutil_copytree w src real_dst of
                          (Some e', w'') \<Rightarrow> (Some e', w'')
                        | (None, w'') \<Rightarrow> shutil_rmtree w'' src))
                  else
                    (case shutil_copy2 w src real_dst of
                       (Some e', w'') \<Rightarrow> (Some e', w'')
                     | (None, w'') \<Rightarrow> os_remove w'' src)))"

section \<open>\<open>SecurityService\<close> and \<open>FileOperationService\<close>\<close>

text \<open>
  The user behind \<open>request_confirmation\<close> is a function from the dialogs shown so far
  (the last one is the question being asked) to the answer: \<open>True\<close> for the Yes
  button. The service is built with such a security service and an empty clipboard.
  Logging is not modelled.
\<close>

type_synonym security_service = "(string \<times> string) list \<Rightarrow> bool"

definition request_confirmation ::
  "security_service \<Rightarrow> string \<Rightarrow> string \<Rightarrow> world \<Rightarrow> bool \<times> world" where
  "request_confirmation sec title message w =
     (let ps = prompts w @ [(title, message)] in (sec ps, w\<lparr>prompts := ps\<rparr>))"

definition nl :: string where
  "nl = [CHR 0x0A]"

datatype clip_action = Copy | Cut

fun action_str :: "clip_action \<Rightarrow> string" where
  "action_str Copy = ''copy''"
| "action_str Cut = ''cut''"

text \<open>
  The clipboard is the empty list (\<open>None\<close>) or the dictionary
  \<open>{'action': a, 'paths': ps}\<close> (\<open>Some (a, ps)\<close>).
\<close>

record file_operation_service =
  clipboard :: "(clip_action \<times> string list) option"

definition init_service :: file_operation_service where
  "init_service = \<lparr>clipboard = None\<rparr>"



definition summary :: "string \<Rightarrow> string list \<Rightarrow> string" where
  "summary msg errors =
     (if errors \<noteq> [] then msg @ nl @ ''Errors occurred:'' @ nl @ py_join nl errors else msg)"


definition rename_item ::
  "security_service \<Rightarrow> string \<Rightarrow> string \<Rightarrow> world \<Rightarrow> (bool \<times> string) \<times> world" where
  "rename_item sec old_path new_name w =
     (if \<not> os_path_exists w old_path
      then ((False, ''Source path does not exist: '' @ old_path), w)
      else if strip new_name = [] then ((False, ''New name cannot be empty.''), w)
      else
        let old_name_base = os_path_basename old_path
        in if new_name = old_name_base then ((True, ''No change in name.''), w)
           else
             let dir_path = os_path_dirname old_path;
                 new_full_path = os_path_join dir_path new_name
             in if os_path_exists w new_full_path
                then ((False, ''An item named '' @ quoted new_name
                               @ '' already exists in this location.''), w)
                else
                  (case request_confirmation sec ''Confirm Rename''
                          (''Are you sure you want to rename '' @ quoted old_name_base
                           @ '' to '' @ quoted new_name @ ''?'') w of
                     (False, w1) \<Rightarrow> ((False, ''Rename cancelled by user.''), w1)
                   | (True, w1) \<Rightarrow>
                       (case os_rename w1 old_path new_full_path of
                          (None, w2) \<Rightarrow>
                            ((True, ''Renamed '' @ quoted old_name_base @ '' to ''
                                    @ quoted new_name @ ''.''), w2)
                        | (Some e, w2) \<Rightarrow> ((False, ''Error renaming: '' @ str_exn e), w2))))"

definition copy_to_clipboard ::
  "string list \<Rightarrow> file_operation_service \<Rightarrow> file_operation_service" where
  "copy_to_clipboard paths svc =
     (if paths \<noteq> [] then svc\<lparr>clipboard := Some (Copy, paths)\<rparr> else svc\<lparr>clipboard := None\<rparr>)"

definition cut_to_clipboard ::
  "string list \<Rightarrow> file_operation_service \<Rightarrow> file_operation_service" where
  "cut_to_clipboard paths svc =
     (if paths \<noteq> [] then svc\<lparr>clipboard := Some (Cut, paths)\<rparr> else svc\<lparr>clipboard := None\<rparr>)"

text \<open>The value of \<open>can_paste\<close> in the dictionary \<open>get_clipboard_status\<close> returns.\<close>

definition get_clipboard_status :: "file_operation_service \<Rightarrow> bool" where
  "get_clipboard_status svc = (clipboard svc \<noteq> None)"

text \<open>
  The name collision block of the paste loop: the world it leaves and, when the item is
  to be skipped, the error it records.
\<close>

definition paste_collision ::
  "security_service \<Rightarrow> world \<Rightarrow> string \<Rightarrow> string \<Rightarrow> world \<times> string option" where
  "paste_collision sec w base_name dst_path =
     (if os_path_exists w dst_path then
        (case request_confirmation sec ''Confirm Overwrite''
                (quoted base_name @ '' already exists in the destination. Overwrite?'') w of
           (False, w1) \<Rightarrow> (w1, Some (''Skipped overwrite of '' @ base_name))
         | (True, w1) \<Rightarrow>
             (case (if os_path_isdir w1 dst_path then shutil_rmtree w1 dst_path
                    else os_remove w1 dst_path) of
                (None, w2) \<Rightarrow> (w2, None)
              | (Some e, w2) \<Rightarrow>
                  (w2, Some (''Error removing existing '' @ quoted base_name
                             @ '' for overwrite: '' @ str_exn e))))
      else (w, None))"

definition paste_transfer ::
  "clip_action \<Rightarrow> world \<Rightarrow> string \<Rightarrow> string \<Rightarrow> exn option \<times> world" where
  "paste_transfer action w src_path dst_path =
     (case action of
        Copy \<Rightarrow>
          if os_path_isdir w src_path then shutil_copytree w src_path dst_path
          else shutil_copy2 w src_path dst_path
      | Cut \<Rightarrow> shutil_move w src_path dst_path)"

fun paste_loop ::
  "security_service \<Rightarrow> clip_action \<Rightarrow> string \<Rightarrow> world \<Rightarrow> nat \<Rightarrow> string list \<Rightarrow> string list
     \<Rightarrow> world \<times> nat \<times> string list" where
  "paste_loop sec action destination_dir w success_count errors [] = (w, success_count, errors)"
| "paste_loop sec action destination_dir w success_count errors (src_path # rest) =
     (if \<not> os_path_exists w src_path then
        paste_loop sec action destination_dir w success_count
          (errors @ [''Source item no longer exists: '' @ os_path_basename src_path]) rest
      else
        let base_name = os_path_basename src_path;
            dst_path = os_path_join destination_dir base_name
        in (case paste_collision sec w base_name dst_path of
              (w1, Some err) \<Rightarrow>
                paste_loop sec action destination_dir w1 success_count (errors @ [err]) rest
            | (w1, None) \<Rightarrow>
                (case paste_transfer action w1 src_path dst_path of
                   (None, w2) \<Rightarrow>
                     paste_loop sec action destination_dir w2 (success_count + 1) errors rest
                 | (Some e, w2) \<Rightarrow>
                     paste_loop sec action destination_dir w2 success_count
                       (errors @ [''Error '' @ action_str action @ ''ing '' @ base_name
                                  @ '': '' @ str_exn e]) rest)))"

definition paste_from_clipboard ::
  "security_service \<Rightarrow> string \<Rightarrow> file_operation_service \<Rightarrow> world
     \<Rightarrow> (bool \<times> string) \<times> file_operation_service \<times> world" where
  "paste_from_clipboard sec destination_dir svc w =
     (case clipboard svc of
        None \<Rightarrow> ((False, ''Clipboard is empty.''), svc, w)
      | Some (action, source_paths) \<Rightarrow>
          if \<not> os_path_isdir w destination_dir
          then ((False, ''Destination is not a valid directory: '' @ destination_dir), svc, w)
          else if source_paths = [] then ((False, ''No source paths in clipboard.''), svc, w)
          else
            (case paste_loop sec action destination_dir w 0 [] source_paths of
               (w', success_count, errors) \<Rightarrow>
                 ((errors = [] \<or> 0 < success_count,
                   summary (''Successfully '' @ action_str action @ ''ed '' @ str_nat success_count
                            @ '' of '' @ str_nat (length source_paths) @ '' item(s).'') errors),
                  (if action = Cut \<and> (errors = [] \<or> 0 < success_count)
                   then svc\<lparr>clipboard := None\<rparr> else svc),
                  w')))"

section \<open>\<open>FileOperations\<close> and \<open>CommandInterpreter\<close>\<close>

text \<open>
  The interpreter's fields, and the \<open>operation_completed\<close> signals its
  \<open>FileOperations\<close> object has emitted. A command handler takes the arguments and the
  state (interpreter and world) and returns the triple
  \<open>(success, message, output_lines)\<close> or the exception it raises.
\<close>

record interp =
  current_directory :: string
  history :: "string list"
  history_position :: nat
  emitted :: "(bool \<times> string) list"

type_synonym cmd_result = "bool \<times> string \<times> string list"

type_synonym handler = "string list \<Rightarrow> interp \<times> world \<Rightarrow> (exn + cmd_result) \<times> interp \<times> world"

definition emit :: "bool \<Rightarrow> string \<Rightarrow> interp \<Rightarrow> interp" where
  "emit ok msg st = st\<lparr>emitted := emitted st @ [(ok, msg)]\<rparr>"

text \<open>\<open>FileOperations.delete_item\<close>, \<open>copy_item\<close> and \<open>move_item\<close> catch every exception.\<close>

definition delete_item :: "string \<Rightarrow> interp \<times> world \<Rightarrow> bool \<times> interp \<times> world" where
  "delete_item path s =
     (case s of (st, w) \<Rightarrow>
        if os_path_isdir w path then
          (case shutil_rmtree w path of
             (None, w') \<Rightarrow> (True, emit True (''Deleted directory: '' @ os_path_basename path) st, w')
           | (Some e, w') \<Rightarrow> (False, emit False (''Failed to delete: '' @ str_exn e) st, w'))
        else
          (case os_remove w path of
             (None, w') \<Rightarrow> (True, emit True (''Deleted file: '' @ os_path_basename path) st, w')
           | (Some e, w') \<Rightarrow> (False, emit False (''Failed to delete: '' @ str_exn e) st, w')))"

definition copy_item :: "string \<Rightarrow> string \<Rightarrow> interp \<times> world \<Rightarrow> bool \<times> interp \<times> world" where
  "copy_item source destination s =
     (case s of (st, w) \<Rightarrow>
        if os_path_isdir w source then
          (case shutil_copytree w source destination of
             (None, w') \<Rightarrow>
               (True, emit True (''Copied directory to: '' @ os_path_basename destination) st, w')
           | (Some e, w') \<Rightarrow> (False, emit False (''Failed to copy: '' @ str_exn e) st, w'))
        else
          (case shutil_copy2 w source destination of
             (None, w') \<Rightarrow>
               (True, emit True (''Copied file to: '' @ os_path_basename destination) st, w')
           | (Some e, w') \<Rightarrow> (False, emit False (''Failed to copy: '' @ str_exn e) st, w')))"

definition move_item :: "string \<Rightarrow> string \<Rightarrow> interp \<times> world \<Rightarrow> bool \<times> interp \<times> world" where
  "move_item source destination s =
     (case s of (st, w) \<Rightarrow>
        (case shutil_move w source destination of
           (None, w') \<Rightarrow> (True, emit True (''Moved to: '' @ os_path_basename destination) st, w')
         | (Some e, w') \<Rightarrow> (False, emit False (''Failed to move: '' @ str_exn e) st, w')))"

definition resolve_path :: "world \<Rightarrow> interp \<Rightarrow> string \<Rightarrow> string" where
  "resolve_path w st path =
     (if path = [] then current_directory st
      else
        let path' = (if startswith path ''~'' then os_path_expanduser w path else path)
        in if os_path_isabs path' then path'
           else os_path_normpath (os_path_join (current_directory st) path'))"

definition cmd_cd :: handler where
  "cmd_cd args s =
     (case s of (st, w) \<Rightarrow>
        let new_dir = (case args of [] \<Rightarrow> os_path_expanduser w ''~'' | a # as \<Rightarrow> resolve_path w st a)
        in if \<not> os_path_exists w new_dir then (Inr (False, ''Directory not found: '' @ new_dir, []), s)
           else if \<not> os_path_isdir w new_dir then (Inr (False, ''Not a directory: '' @ new_dir, []), s)
           else (Inr (True, ''Changed directory to: '' @ new_dir, []),
                 st\<lparr>current_directory := new_dir\<rparr>, w))"

definition cmd_pwd :: handler where
  "cmd_pwd args s = (Inr (True, ''Current directory:'', [current_directory (fst s)]), s)"

definition cmd_mkdir :: handler where
  "cmd_mkdir args s =
     (case s of (st, w) \<Rightarrow>
        (case args of
           [] \<Rightarrow> (Inr (False, ''Usage: mkdir <directory>'', []), s)
         | a # as \<Rightarrow>
             let path = resolve_path w st a
             in if os_path_exists w path then (Inr (False, ''Path already exists: '' @ path, []), s)
                else
                  (case os_makedirs w path of
                     (None, w') \<Rightarrow> (Inr (True, ''Created directory: '' @ path, []), st, w')
                   | (Some e, w') \<Rightarrow>
                       (Inr (False, ''Error creating directory: '' @ str_exn e, []), st, w'))))"

definition cmd_rm :: handler where
  "cmd_rm args s =
     (case s of (st, w) \<Rightarrow>
        if args = [] then (Inr (False, ''Usage: rm [-r] <path>'', []), s)
        else
          let recursive = (''-r'' \<in> set args \<or> ''-rf'' \<in> set args);
              path_args = filter (\<lambda>arg. \<not> startswith arg ''-'') args
          in (case path_args of
                [] \<Rightarrow> (Inr (False, ''No path specified'', []), s)
              | a # as \<Rightarrow>
                  let path = resolve_path w st a
                  in if \<not> os_path_exists w path then (Inr (False, ''Path not found: '' @ path, []), s)
                     else if os_path_isdir w path then
                       (if recursive
                        then (Inr (True, ''Removed directory: '' @ path, []), snd (delete_item path s))
                        else (Inr (False, ''Cannot remove directory without -r option: '' @ path, []), s))
                     else (Inr (True, ''Removed file: '' @ path, []), snd (delete_item path s))))"

definition cmd_cp :: handler where
  "cmd_cp args s =
     (case s of (st, w) \<Rightarrow>
        (case args of
           a # b # as \<Rightarrow>
             let source = resolve_path w st a; destination = resolve_path w st b
             in if \<not> os_path_exists w source then (Inr (False, ''Source not found: '' @ source, []), s)
                else (Inr (True, ''Copied '' @ source @ '' to '' @ destination, []),
                      snd (copy_item source destination s))
         | _ \<Rightarrow> (Inr (False, ''Usage: cp [-r] <source> <destination>'', []), s)))"

definition cmd_mv :: handler where
  "cmd_mv args s =
     (case s of (st, w) \<Rightarrow>
        (case args of
           a # b # as \<Rightarrow>
             let source = resolve_path w st a; destination = resolve_path w st b
             in if \<not> os_path_exists w source then (Inr (False, ''Source not found: '' @ source, []), s)
                else (Inr (True, ''Moved '' @ source @ '' to '' @ destination, []),
                      snd (move_item source destination s))
         | _ \<Rightarrow> (Inr (False, ''Usage: mv <source> <destination>'', []), s)))"

definition cmd_clear :: handler where
  "cmd_clear args s = (Inr (True, ''CLEAR'', []), s)"

text \<open>The names registered in \<open>self.commands\<close>, sorted, and the handlers' docstrings.\<close>

definition command_docs :: "(string \<times> string) list" where
  "command_docs =
     [(''cat'', ''Display file contents.''), (''cd'', ''Change directory.''),
      (''clear'', ''Clear the console.''), (''cp'', ''Copy files or directories.''),
      (''dir'', ''List directory contents.''), (''find'', ''Find files matching a pattern.''),
      (''help'', ''Display help information.''), (''ls'', ''List directory contents.''),
      (''mkdir'', ''Create directory.''), (''mv'', ''Move files or directories.''),
      (''pwd'', ''Print working directory.''), (''rm'', ''Remove files or directories.'')]"

definition cmd_help :: handler where
  "cmd_help args s =
     (case args of
        [] \<Rightarrow> (Inr (True, ''Available commands:'', map fst command_docs), s)
      | a # as \<Rightarrow>
          let command = lower a
          in (case map_of command_docs command of
                Some doc \<Rightarrow> (Inr (True, ''Help for '' @ command @ '':'', [doc]), s)
              | None \<Rightarrow> (Inr (False, ''Command not found: '' @ command, []), s)))"

text \<open>
  The table \<open>self.commands\<close>. The handlers of \<open>ls\<close>, \<open>cat\<close> and \<open>find\<close> read
  directory listings, file times and file contents, which the model of the world does
  not hold: they are parameters of the table.
\<close>

definition commands :: "handler \<Rightarrow> handler \<Rightarrow> handler \<Rightarrow> (string \<times> handler) list" where
  "commands cmd_ls cmd_cat cmd_find =
     [(''cd'', cmd_cd), (''ls'', cmd_ls), (''dir'', cmd_ls), (''pwd'', cmd_pwd),
      (''mkdir'', cmd_mkdir), (''rm'', cmd_rm), (''cp'', cmd_cp), (''mv'', cmd_mv),
      (''cat'', cmd_cat), (''find'', cmd_find), (''help'', cmd_help), (''clear'', cmd_clear)]"

text \<open>
  \<open>execute\<close>: \<open>execute_try\<close> is the body of its \<open>try\<close> block, where \<open>shlex.split\<close>
  (the parameter \<open>split\<close>), the indexing \<open>args[0]\<close> and the handler may raise; the
  \<open>except Exception\<close> clause turns what they raise into a failure triple.
\<close>

definition execute_try ::
  "(string \<Rightarrow> exn + string list) \<Rightarrow> (string \<times> handler) list \<Rightarrow> string \<Rightarrow> interp \<times> world
     \<Rightarrow> (exn + cmd_result) \<times> interp \<times> world" where
  "execute_try split cmds command_line s =
     (case split command_line of
        Inl e \<Rightarrow> (Inl e, s)
      | Inr args \<Rightarrow>
          (case args of
             [] \<Rightarrow> (Inl (Exn IndexError ''list index out of range''), s)
           | a # as \<Rightarrow>
               let command = lower a
               in (case map_of cmds command of
                     Some h \<Rightarrow> h as s
                   | None \<Rightarrow> (Inr (False, ''Command not found: '' @ command, []), s))))"

definition execute ::
  "(string \<Rightarrow> exn + string list) \<Rightarrow> (string \<times> handler) list \<Rightarrow> string \<Rightarrow> interp \<times> world
     \<Rightarrow> (exn + cmd_result) \<times> interp \<times> world" where
  "execute split cmds command_line s =
     (case s of (st, w) \<Rightarrow>
        if strip command_line = [] then (Inr (True, [], []), s)
        else
          let st1 = st\<lparr>history := history st @ [command_line],
                       history_position := length (history st @ [command_line])\<rparr>
          in (case execute_try split cmds command_line (st1, w) of
                (Inr r, s') \<Rightarrow> (Inr r, s')
              | (Inl e, s') \<Rightarrow> (Inr (False, ''Error: '' @ str_exn e, []), s')))"

subsection \<open>\<open>shlex.split\<close>\<close>

text \<open>
  The tokenizer of \<open>shlex\<close> in POSIX mode with \<open>whitespace_split\<close> and no comment
  characters, as \<open>shlex.split\<close> sets it up: the state is between tokens, in a word,
  inside a quotation, or after a backslash (met in a word or inside double quotes).
\<close>

datatype lex_state = LWhite | LWord | LQuote char | LEscape "char option"

fun shlex_run :: "lex_state \<Rightarrow> string \<Rightarrow> bool \<Rightarrow> string list \<Rightarrow> string \<Rightarrow> exn + string list" where
  "shlex_run st tok is_quoted acc [] =
     (case st of
        LWhite \<Rightarrow> Inr (rev acc)
      | LWord \<Rightarrow> Inr (rev (if tok \<noteq> [] \<or> is_quoted then tok # acc else acc))
      | LQuote q \<Rightarrow> Inl (Exn ValueError ''No closing quotation'')
      | LEscape es \<Rightarrow> Inl (Exn ValueError ''No escaped character''))"
| "shlex_run st tok is_quoted acc (c # cs) =
     (case st of
        LWhite \<Rightarrow>
          if c \<in> set '' \<newline>'' \<or> c = CHR 0x09 \<or> c = CHR 0x0D then shlex_run LWhite [] False acc cs
          else if c = CHR 0x5C then shlex_run (LEscape None) tok is_quoted acc cs
          else if c = CHR 0x27 \<or> c = CHR 0x22 then shlex_run (LQuote c) tok is_quoted acc cs
          else shlex_run LWord [c] is_quoted acc cs
      | LWord \<Rightarrow>
          if c \<in> set '' \<newline>'' \<or> c = CHR 0x09 \<or> c = CHR 0x0D
          then shlex_run LWhite [] False (if tok \<noteq> [] \<or> is_quoted then tok # acc else acc) cs
          else if c = CHR 0x27 \<or> c = CHR 0x22 then shlex_run (LQuote c) tok is_quoted acc cs
          else if c = CHR 0x5C then shlex_run (LEscape None) tok is_quoted acc cs
          else shlex_run LWord (tok @ [c]) is_quoted acc cs
      | LQuote q \<Rightarrow>
          if c = q then shlex_run LWord tok True acc cs
          else if c = CHR 0x5C \<and> q = CHR 0x22 then shlex_run (LEscape (Some q)) tok True acc cs
          else shlex_run (LQuote q) (tok @ [c]) True acc cs
      | LEscape None \<Rightarrow> shlex_run LWord (tok @ [c]) is_quoted acc cs
      | LEscape (Some q) \<Rightarrow>
          shlex_run (LQuote q)
            (tok @ (if c \<noteq> CHR 0x5C \<and> c \<noteq> q then [CHR 0x5C] else []) @ [c]) is_quoted acc cs)"

definition shlex_split :: "string \<Rightarrow> exn + string list" where
  "shlex_split s = shlex_run LWhite [] False [] s"

section \<open>\<open>MetadataService\<close>\<close>

text \<open>
  The table \<open>file_metadata\<close> maps a \<open>file_path\<close> (the primary key) to its row; the
  columns \<open>tags\<close> and \<open>notes\<close> may be \<open>NULL\<close>. The service holds the table, whether
  \<open>_get_connection\<close> gives a connection, and the statements its cursors have executed.
  \<open>CURRENT_TIMESTAMP\<close> is the argument \<open>now\<close>.
\<close>

record meta_row =
  row_tags :: "string option"
  row_notes :: "string option"
  last_updated :: nat

datatype sql =
    Select string
  | Insert string string string
  | Update string "string option" "string option"

record metadata_service =
  connected :: bool
  file_metadata :: "string \<Rightarrow> meta_row option"
  executed :: "sql list"

text \<open>\<open>get_metadata\<close> returns the dictionary \<open>{'tags': tags_list, 'notes': notes}\<close> or \<open>None\<close>.\<close>

definition get_metadata ::
  "world \<Rightarrow> string \<Rightarrow> metadata_service \<Rightarrow> (string list \<times> string option) option \<times> metadata_service" where
  "get_metadata w file_path svc =
     (let abs_path = os_path_abspath w file_path
      in if \<not> connected svc then (None, svc)
         else
           (case file_metadata svc abs_path of
              Some r \<Rightarrow>
                (Some ((case row_tags r of
                          None \<Rightarrow> []
                        | Some t \<Rightarrow> if t \<noteq> [] then split_on CHR '','' t else []),
                       row_notes r),
                 svc\<lparr>executed := executed svc @ [Select abs_path]\<rparr>)
            | None \<Rightarrow> (None, svc\<lparr>executed := executed svc @ [Select abs_path]\<rparr>)))"

definition tags_str :: "string list \<Rightarrow> string" where
  "tags_str tags = py_join '','' (map strip (filter (\<lambda>tag. strip tag \<noteq> []) tags))"

definition save_metadata ::
  "world \<Rightarrow> nat \<Rightarrow> string \<Rightarrow> string list option \<Rightarrow> string option \<Rightarrow> metadata_service
     \<Rightarrow> metadata_service" where
  "save_metadata w now file_path tags note_text svc =
     (let abs_path = os_path_abspath w file_path
      in if \<not> connected svc then svc
         else
           (case get_metadata w abs_path svc of
              (None, svc1) \<Rightarrow>
                let tags_to_save_str = (case tags of None \<Rightarrow> [] | Some ts \<Rightarrow> tags_str ts);
                    note_to_save = (case note_text of None \<Rightarrow> [] | Some n \<Rightarrow> n);
                    svc2 = svc1\<lparr>executed := executed svc1
                                   @ [Insert abs_path tags_to_save_str note_to_save]\<rparr>
                in if file_metadata svc1 abs_path \<noteq> None then svc2
                   else svc2\<lparr>file_metadata := (file_metadata svc1)
                          (abs_path \<mapsto> \<lparr>row_tags = Some tags_to_save_str,
                                         row_notes = Some note_to_save, last_updated = now\<rparr>)\<rparr>
            | (Some (existing_tags, current_notes), svc1) \<Rightarrow>
                let current_tags_str = py_join '','' existing_tags;
                    new_tags =
                      (case tags of
                         None \<Rightarrow> None
                       | Some ts \<Rightarrow> if tags_str ts \<noteq> current_tags_str then Some (tags_str ts) else None);
                    new_notes =
                      (case note_text of
                         None \<Rightarrow> None
                       | Some n \<Rightarrow> if Some n \<noteq> current_notes then Some n else None)
                in if new_tags = None \<and> new_notes = None then svc1
                   else
                     svc1\<lparr>executed := executed svc1 @ [Update abs_path new_tags new_notes],
                          file_metadata :=
                            (case file_metadata svc1 abs_path of
                               None \<Rightarrow> file_metadata svc1
                             | Some r \<Rightarrow>
                                 (file_metadata svc1)
                                   (abs_path \<mapsto>
                                      \<lparr>row_tags = (case new_tags of None \<Rightarrow> row_tags r | Some t \<Rightarrow> Some t),
                                       row_notes = (case new_notes of None \<Rightarrow> row_notes r | Some n \<Rightarrow> Some n),
                                       last_updated = now\<rparr>))\<rparr>))"

section \<open>\<open>MainWindow._handle_llm_response\<close>\<close>

text \<open>
  What \<open>json.loads\<close> returns: a JSON value (a number is kept as it is written).
\<close>

datatype json =
    JNull | JBool bool | JNum string | JStr string | JList "json list"
  | JDict "(string \<times> json) list"

text \<open>
  What the handler does to the window, in order: messages added to the chat history, log
  records with their level, the deferred call
  \<open>QTimer.singleShot(ms, select_files_by_paths(paths))\<close>, status bar messages with their
  timeout, and \<open>_finalize_llm_processing\<close>.
\<close>

datatype log_level = LInfo | LWarning | LError

datatype ui_event =
    ChatMessage string string
  | Log log_level string
  | SelectFilesLater nat "string list"
  | StatusMessage string nat
  | FinalizeLlmProcessing

definition found_files_prefix :: string where
  "found_files_prefix = ''FOUND_FILES_JSON:''"

text \<open>The loop over \<open>response_lines\<close>: the value of \<open>json_str_to_parse\<close> after it.\<close>

fun find_json_str :: "string list \<Rightarrow> string option" where
  "find_json_str [] = None"
| "find_json_str (line # rest) =
     (if startswith (strip line) found_files_prefix then
        let json_part = strip (drop (length found_files_prefix) (strip line));
            start_index = find_char CHR ''['' json_part;
            end_index = rfind_char CHR '']'' json_part
        in if start_index \<noteq> - 1 \<and> end_index \<noteq> - 1 \<and> end_index > start_index
           then Some (slice json_part start_index (end_index + 1))
           else find_json_str rest
      else find_json_str rest)"

fun is_str :: "json \<Rightarrow> bool" where
  "is_str (JStr s) = True"
| "is_str v = False"

fun str_of :: "json \<Rightarrow> string" where
  "str_of (JStr s) = s"
| "str_of v = []"

text \<open>
  \<open>repr\<close> of a list of strings, for strings of printable characters without quotes or
  backslashes.
\<close>

definition repr_list :: "string list \<Rightarrow> string" where
  "repr_list xs = ''['' @ py_join '', '' (map quoted xs) @ '']''"

text \<open>
  The \<open>try\<close> block around \<open>json.loads\<close> (the parameter \<open>loads\<close>): the events it
  adds, or the exception it raises.
\<close>

definition parse_found_files ::
  "(string \<Rightarrow> exn + json) \<Rightarrow> string \<Rightarrow> exn + ui_event list" where
  "parse_found_files loads json_str_to_parse =
     (case loads json_str_to_parse of
        Inl e \<Rightarrow> Inl e
      | Inr found_paths \<Rightarrow>
          (case found_paths of
             JList ps \<Rightarrow>
               if list_all is_str ps then
                 Inr [Log LInfo (''LLM provided FOUND_FILES_JSON: '' @ repr_list (map str_of ps)),
                      SelectFilesLater 100 (map str_of ps),
                      StatusMessage (''LLM found '' @ str_nat (length ps) @ '' files. Selecting...'') 5000]
               else
                 Inr [Log LWarning (''FOUND_FILES_JSON did not contain a valid list of strings: ''
                                    @ json_str_to_parse)]
           | _ \<Rightarrow>
               Inr [Log LWarning (''FOUND_FILES_JSON did not contain a valid list of strings: ''
                                  @ json_str_to_parse)]))"

definition handle_llm_response ::
  "(string \<Rightarrow> exn + json) \<Rightarrow> bool \<Rightarrow> string \<Rightarrow> exn + ui_event list" where
  "handle_llm_response loads has_chat_widget response_text =
     (let response_lines = split_on CHR 0x0A (strip response_text)
      in Inr
           ([Log LInfo (''LLM response received (length: '' @ str_nat (length response_text) @ '').'')]
            @ (if has_chat_widget then [ChatMessage ''LLM'' response_text] else [])
            @ (case find_json_str response_lines of
                 None \<Rightarrow> [StatusMessage ''LLM response processed.'' 3000]
               | Some json_str_to_parse \<Rightarrow>
                   if json_str_to_parse = [] then [StatusMessage ''LLM response processed.'' 3000]
                   else
                     (case parse_found_files loads json_str_to_parse of
                        Inr evs \<Rightarrow> evs
                      | Inl (Exn JSONDecodeError m) \<Rightarrow>
                          [Log LError (''Failed to parse FOUND_FILES_JSON: '' @ m
                                       @ ''. JSON string: '' @ json_str_to_parse)]
                      | Inl (Exn c m) \<Rightarrow>
                          [Log LError (''Error processing FOUND_FILES_JSON content: '' @ m)]))
            @ [FinalizeLlmProcessing]))"

text \<open>The file selection a run of the handler asks for, if any.\<close>

fun selections :: "ui_event list \<Rightarrow> string list list" where
  "selections [] = []"
| "selections (SelectFilesLater ms ps # evs) = ps # selections evs"
| "selections (ev # evs) = selections evs"

fun logged_errors :: "ui_event list \<Rightarrow> string list" where
  "logged_errors [] = []"
| "logged_errors (Log LError m # evs) = m # logged_errors evs"
| "logged_errors (ev # evs) = logged_errors evs"

subsection \<open>A JSON reader\<close>

text \<open>
  \<open>json.loads\<close> is a parameter of the handler. Where a concrete reader is needed,
  \<open>json_loads\<close> stands for it: a recursive descent reader of the JSON grammar, with the
  names \<open>NaN\<close>, \<open>Infinity\<close> and \<open>-Infinity\<close> Python also accepts. Its fuel, the
  length of the text, bounds the nesting. An escape \<open>\uXXXX\<close> of a code point above
  255 is outside the text model and is rejected; the text of a \<open>JSONDecodeError\<close> does
  not give the position.
\<close>

definition is_json_ws :: "char \<Rightarrow> bool" where
  "is_json_ws c = (c = CHR '' '' \<or> c = CHR 0x09 \<or> c = CHR 0x0A \<or> c = CHR 0x0D)"

definition skip_ws :: "string \<Rightarrow> string" where
  "skip_ws s = dropWhile is_json_ws s"

definition is_digit :: "char \<Rightarrow> bool" where
  "is_digit c = (48 \<le> (of_char c :: nat) \<and> (of_char c :: nat) \<le> 57)"

definition hex_val :: "char \<Rightarrow> nat option" where
  "hex_val c =
     (let n = (of_char c :: nat)
      in if 48 \<le> n \<and> n \<le> 57 then Some (n - 48)
         else if 65 \<le> n \<and> n \<le> 70 then Some (n - 55)
         else if 97 \<le> n \<and> n \<le> 102 then Some (n - 87)
         else None)"

fun json_string_body :: "string \<Rightarrow> string \<Rightarrow> (string \<times> string) option" where
  "json_string_body acc [] = None"
| "json_string_body acc [c] = (if c = CHR 0x22 then Some (acc, []) else None)"
| "json_string_body acc (c # e # r) =
     (if c = CHR 0x22 then Some (acc, e # r)
      else if c = CHR 0x5C then
        (if e = CHR 0x22 \<or> e = CHR 0x5C \<or> e = CHR ''/'' then json_string_body (acc @ [e]) r
         else if e = CHR ''b'' then json_string_body (acc @ [CHR 0x08]) r
         else if e = CHR ''f'' then json_string_body (acc @ [CHR 0x0C]) r
         else if e = CHR ''n'' then json_string_body (acc @ [CHR 0x0A]) r
         else if e = CHR ''r'' then json_string_body (acc @ [CHR 0x0D]) r
         else if e = CHR ''t'' then json_string_body (acc @ [CHR 0x09]) r
         else if e = CHR ''u'' then
           (case map hex_val (take 4 r) of
              [Some a, Some b, Some c', Some d] \<Rightarrow>
                (let n = ((a * 16 + b) * 16 + c') * 16 + d
                 in if n < 256 then json_string_body (acc @ [char_of n]) (drop 4 r) else None)
            | _ \<Rightarrow> None)
         else None)
      else if (of_char c :: nat) < 32 then None
      else json_string_body (acc @ [c]) (e # r))"

definition json_number :: "string \<Rightarrow> (string \<times> string) option" where
  "json_number s =
     (let sign = (if startswith s ''-'' then ''-'' else []);
          r0 = drop (length sign) s;
          ip = (if startswith r0 ''0'' then ''0'' else takeWhile is_digit r0);
          r1 = drop (length ip) r0;
          fd = (if startswith r1 ''.'' then takeWhile is_digit (tl r1) else []);
          frac = (if fd \<noteq> [] then ''.'' @ fd else []);
          r2 = drop (length frac) r1;
          es = (if startswith r2 ''e'' \<or> startswith r2 ''E''
                then (if startswith (tl r2) ''+'' \<or> startswith (tl r2) ''-'' then take 2 r2 else take 1 r2)
                else []);
          ed = (if es \<noteq> [] then takeWhile is_digit (drop (length es) r2) else []);
          ex = (if ed \<noteq> [] then es @ ed else []);
          r3 = drop (length ex) r2
      in if ip = [] then None else Some (sign @ ip @ frac @ ex, r3))"

fun json_value :: "nat \<Rightarrow> string \<Rightarrow> (json \<times> string) option"
  and json_items :: "nat \<Rightarrow> json list \<Rightarrow> string \<Rightarrow> (json \<times> string) option"
  and json_members :: "nat \<Rightarrow> (string \<times> json) list \<Rightarrow> string \<Rightarrow> (json \<times> string) option" where
  "json_value 0 s = None"
| "json_value (Suc k) s =
     (if startswith s [CHR 0x22] then
        (case json_string_body [] (tl s) of None \<Rightarrow> None | Some (x, r) \<Rightarrow> Some (JStr x, r))
      else if startswith s ''['' then
        (if startswith (skip_ws (tl s)) '']'' then Some (JList [], tl (skip_ws (tl s)))
         else json_items k [] (skip_ws (tl s)))
      else if startswith s ''{'' then
        (if startswith (skip_ws (tl s)) ''}'' then Some (JDict [], tl (skip_ws (tl s)))
         else json_members k [] (skip_ws (tl s)))
      else if startswith s ''null'' then Some (JNull, drop 4 s)
      else if startswith s ''true'' then Some (JBool True, drop 4 s)
      else if startswith s ''false'' then Some (JBool False, drop 5 s)
      else if startswith s ''NaN'' then Some (JNum ''NaN'', drop 3 s)
      else if startswith s ''Infinity'' then Some (JNum ''Infinity'', drop 8 s)
      else if startswith s ''-Infinity'' then Some (JNum ''-Infinity'', drop 9 s)
      else (case json_number s of None \<Rightarrow> None | Some (x, r) \<Rightarrow> Some (JNum x, r)))"
| "json_items 0 acc s = None"
| "json_items (Suc k) acc s =
     (case json_value k s of
        None \<Rightarrow> None
      | Some (v, r) \<Rightarrow>
          if startswith (skip_ws r) '','' then json_items k (acc @ [v]) (skip_ws (tl (skip_ws r)))
          else if startswith (skip_ws r) '']'' then Some (JList (acc @ [v]), tl (skip_ws r))
          else None)"
| "json_members 0 acc s = None"
| "json_members (Suc k) acc s =
     (if \<not> startswith s [CHR 0x22] then None
      else
        (case json_string_body [] (tl s) of
           None \<Rightarrow> None
         | Some (key, r) \<Rightarrow>
             if \<not> startswith (skip_ws r) '':'' then None
             else
               (case json_value k (skip_ws (tl (skip_ws r))) of
                  None \<Rightarrow> None
                | Some (v, r') \<Rightarrow>
                    if startswith (skip_ws r') '','' then
                      json_members k (acc @ [(key, v)]) (skip_ws (tl (skip_ws r')))
                    else if startswith (skip_ws r') ''}'' then
                      Some (JDict (acc @ [(key, v)]), tl (skip_ws r'))
                    else None)))"

definition json_loads :: "string \<Rightarrow> exn + json" where
  "json_loads s =
     (case json_value (2 * length s + 2) (skip_ws s) of
        None \<Rightarrow> Inl (Exn JSONDecodeError ''Expecting value'')
      | Some (v, r) \<Rightarrow> if skip_ws r = [] then Inr v else Inl (Exn JSONDecodeError ''Extra data''))"

section \<open>Sequences of clipboard calls\<close>

text \<open>
  A call of \<open>copy_to_clipboard\<close>, \<open>cut_to_clipboard\<close> or \<open>paste_from_clipboard\<close>, and
  the run of a sequence of such calls on one service.
\<close>

datatype clip_op =
  CopyToClipboard "string list" | CutToClipboard "string list" | PasteFromClipboard string

fun run_ops ::
  "security_service \<Rightarrow> clip_op list \<Rightarrow> file_operation_service \<times> world
     \<Rightarrow> file_operation_service \<times> world" where
  "run_ops sec [] s = s"
| "run_ops sec (CopyToClipboard paths # ops) s =
     run_ops sec ops (copy_to_clipboard paths (fst s), snd s)"
| "run_ops sec (CutToClipboard paths # ops) s =
     run_ops sec ops (cut_to_clipboard paths (fst s), snd s)"
| "run_ops sec (PasteFromClipboard dst # ops) s =
     run_ops sec ops (snd (paste_from_clipboard sec dst (fst s) (snd s)))"

definition clipboard_ok :: "file_operation_service \<Rightarrow> bool" where
  "clipboard_ok svc =
     (case clipboard svc of
        None \<Rightarrow> True
      | Some (action, paths) \<Rightarrow> (action = Copy \<or> action = Cut) \<and> paths \<noteq> [])"

section \<open>Example worlds\<close>

definition w_demo :: world where
  "w_demo =
     \<lparr>root = Dir [(''a'', Dir [(''f'', File ''x''), (''d'', Dir [])]), (''b'', Dir [])],
      cwd = [''a''], home = ''/a'', users = [], prompts = []\<rparr>"

definition w_blank :: world where
  "w_blank =
     \<lparr>root = Dir [('' '', File ''x'')], cwd = [], home = ''/'', users = [], prompts = []\<rparr>"

section \<open>Example interpreter states\<close>

definition i_demo :: interp where
  "i_demo = \<lparr>current_directory = ''/a'', history = [], history_position = 0, emitted = []\<rparr>"

text \<open>A handler that raises, for the handlers the table takes as parameters.\<close>

definition raising :: handler where
  "raising args s = (Inl (Exn OtherException ''boom''), s)"

section \<open>Readings of the handler\<close>

text \<open>
  What one line gives the loop of the handler: the text from its first \<open>[\<close> to its
  last \<open>]\<close> when the stripped line starts with \<open>FOUND_FILES_JSON:\<close> and has such
  a pair after the prefix. \<open>paths_of\<close> is the list of paths in what \<open>json.loads\<close>
  returned, when that is a list of strings.
\<close>

definition json_candidate :: "string \<Rightarrow> string option" where
  "json_candidate line = find_json_str [line]"

definition paths_of :: "exn + json \<Rightarrow> string list option" where
  "paths_of r =
     (case r of
        Inr (JList ps) \<Rightarrow> if list_all is_str ps then Some (map str_of ps) else None
      | _ \<Rightarrow> None)"

text \<open>Example responses of the language model.\<close>

definition response_ok :: string where
  \<open>response_ok = ''Here are the files:\<newline>FOUND_FILES_JSON: ["/a/b.txt","/c/d.txt"]\<newline>Done.''\<close>

definition response_bad_json :: string where
  \<open>response_bad_json = ''FOUND_FILES_JSON: ["/a/b.txt",]''\<close>

definition response_two_lines :: string where
  \<open>response_two_lines = ''FOUND_FILES_JSON: ["/x"]\<newline>FOUND_FILES_JSON: ["/a/b.txt","/c/d.txt"]''\<close>

definition response_unclosed :: string where
  \<open>response_unclosed = ''FOUND_FILES_JSON: ["/a/b.txt"''\<close>

definition response_bad_then_good :: string where
  \<open>response_bad_then_good = ''FOUND_FILES_JSON: [oops]\<newline>FOUND_FILES_JSON: ["/a"]''\<close>

section \<open>Path components\<close>

text \<open>A component that names an entry: not empty, not \<open>.\<close>, not \<open>..\<close>, without a slash.\<close>

definition proper_comp :: "string \<Rightarrow> bool" where
  "proper_comp c = (c \<noteq> [] \<and> c \<noteq> ''.'' \<and> c \<noteq> ''..'' \<and> CHR ''/'' \<notin> set c)"

text \<open>A connected metadata service with an empty table.\<close>

definition m_demo :: metadata_service where
  "m_demo = \<lparr>connected = True, file_metadata = Map.empty, executed = []\<rparr>"

section \<open>Notions for the file system properties\<close>

text \<open>
  \<open>os_kind\<close>: the place and the kind of what a path names, if it names something.
  \<open>shrinks w w'\<close>: from \<open>w\<close> to \<open>w'\<close> the working directory is the same and nothing
  was created: whatever is in the tree of \<open>w'\<close> was in the tree of \<open>w\<close>, with its kind.
  \<open>entry_path\<close>: the path ends in the name of a directory entry, so that it is
  neither the root nor written with a final \<open>.\<close> or \<open>..\<close>.
\<close>

definition os_kind :: "world \<Rightarrow> string \<Rightarrow> (string list \<times> kind) option" where
  "os_kind w s = map_option (\<lambda>(q, n). (q, node_kind n)) (os_lookup w s)"




chapter \<open>Verified properties\<close>

section \<open>The clipboard\<close>

lemma paste_clipboard_cases:
  "clipboard (fst (snd (paste_from_clipboard sec dst svc w))) = clipboard svc
   \<or> clipboard (fst (snd (paste_from_clipboard sec dst svc w))) = None"
  by (auto simp: paste_from_clipboard_def split: option.splits prod.splits)

lemma clipboard_ok_paste:
  "clipboard_ok svc \<Longrightarrow> clipboard_ok (fst (snd (paste_from_clipboard sec dst svc w)))"
  using paste_clipboard_cases [of sec dst svc w] by (auto simp: clipboard_ok_def)

lemma clipboard_ok_copy: "clipboard_ok (copy_to_clipboard paths svc)"
  by (simp add: clipboard_ok_def copy_to_clipboard_def)

lemma clipboard_ok_cut: "clipboard_ok (cut_to_clipboard paths svc)"
  by (simp add: clipboard_ok_def cut_to_clipboard_def)

lemma clipboard_ok_run:
  "clipboard_ok (fst s) \<Longrightarrow> clipboard_ok (fst (run_ops sec ops s))"
proof (induction ops arbitrary: s)
  case Nil
  then show ?case by simp
next
  case (Cons op ops)
  show ?case
  proof (cases op)
    case (CopyToClipboard paths)
    then show ?thesis using Cons.IH [of "(copy_to_clipboard paths (fst s), snd s)"]
      by (simp add: clipboard_ok_copy)
  next
    case (CutToClipboard paths)
    then show ?thesis using Cons.IH [of "(cut_to_clipboard paths (fst s), snd s)"]
      by (simp add: clipboard_ok_cut)
  next
    case (PasteFromClipboard dst)
    then show ?thesis
      using Cons.IH [of "snd (paste_from_clipboard sec dst (fst s) (snd s))"] Cons.prems
      by (simp add: clipboard_ok_paste)
  qed
qed

text \<open>
  C10. After every sequence of \<open>copy_to_clipboard\<close>, \<open>cut_to_clipboard\<close> and
  \<open>paste_from_clipboard\<close> calls on a new service, the clipboard is empty or holds an
  action \<open>copy\<close> or \<open>cut\<close> with a non-empty list of paths; copying or cutting the
  empty list empties the clipboard, and \<open>get_clipboard_status\<close> then reports that
  nothing can be pasted.
\<close>

theorem clipboard_invariant:
  "clipboard_ok (fst (run_ops sec ops (init_service, w)))
   \<and> clipboard (copy_to_clipboard [] svc) = None
   \<and> clipboard (cut_to_clipboard [] svc) = None
   \<and> \<not> get_clipboard_status (copy_to_clipboard [] svc)
   \<and> \<not> get_clipboard_status (cut_to_clipboard [] svc)"
proof -
  have "clipboard_ok (fst (init_service, w))"
    by (simp add: clipboard_ok_def init_service_def)
  then have "clipboard_ok (fst (run_ops sec ops (init_service, w)))"
    by (rule clipboard_ok_run)
  then show ?thesis
    by (simp add: copy_to_clipboard_def cut_to_clipboard_def get_clipboard_status_def)
qed

theorem clipboard_invariant_witness:
  "clipboard (fst (run_ops (\<lambda>h. True)
       [CutToClipboard [''/a/f''], PasteFromClipboard ''/b'', CopyToClipboard [''/b/f''],
        CopyToClipboard []]
       (init_service, w_demo))) = None
   \<and> clipboard_ok (fst (run_ops (\<lambda>h. True)
       [CutToClipboard [''/a/f''], PasteFromClipboard ''/b'', CopyToClipboard [''/b/f'']]
       (init_service, w_demo)))"
  using clipboard_invariant
    [of "\<lambda>h. True"
        "[CutToClipboard [''/a/f''], PasteFromClipboard ''/b'', CopyToClipboard [''/b/f'']]"
        w_demo init_service]
  by (simp add: copy_to_clipboard_def)

section \<open>Renaming\<close>

lemma w_demo_exists_f: "os_path_exists w_demo ''/a/f''"
  by code_simp

lemma basename_f: "os_path_basename ''/a/f'' = ''f''"
  by code_simp

lemma strip_f: "strip ''f'' = ''f''"
  by code_simp

text \<open>
  C9, as amended. For every existing path, \<open>rename_item\<close> called with the path's own
  base name changes nothing: no rename, no confirmation dialog, the same world. It
  reports success when that base name has a character that is not white space; when the
  base name is empty or blank (a path written with a trailing slash, a file whose name
  is a space) the guard on the new name comes first and the call reports
  \<open>New name cannot be empty.\<close>
\<close>

theorem rename_to_own_name:
  "os_path_exists w old_path \<Longrightarrow>
     snd (rename_item sec old_path (os_path_basename old_path) w) = w
     \<and> (strip (os_path_basename old_path) \<noteq> [] \<longrightarrow>
          fst (rename_item sec old_path (os_path_basename old_path) w)
            = (True, ''No change in name.''))
     \<and> (strip (os_path_basename old_path) = [] \<longrightarrow>
          fst (rename_item sec old_path (os_path_basename old_path) w)
            = (False, ''New name cannot be empty.''))"
  by (simp add: rename_item_def Let_def)

theorem rename_to_own_name_witness:
  "os_path_exists w_demo ''/a/f''
   \<and> rename_item (\<lambda>h. False) ''/a/f'' ''f'' w_demo = ((True, ''No change in name.''), w_demo)"
  using rename_to_own_name [OF w_demo_exists_f, of "\<lambda>h. False"] w_demo_exists_f
  by (simp add: basename_f strip_f prod_eq_iff)

text \<open>
  The claim as stated fails for the existing file named by a single space in the root
  directory: renaming it to its own name is reported as a failure.
\<close>

theorem rename_blank_name_counterexample:
  "os_path_exists w_blank ''/ ''
   \<and> os_path_basename ''/ '' = '' ''
   \<and> fst (rename_item (\<lambda>h. True) ''/ '' '' '' w_blank) = (False, ''New name cannot be empty.'')"
  by code_simp

section \<open>The command interpreter\<close>

lemma isdir_exists: "os_path_isdir w s \<Longrightarrow> os_path_exists w s"
  by (auto simp: os_path_isdir_def os_path_exists_def)

lemma cd_demo_missing: "\<not> os_path_isdir w_demo (resolve_path w_demo i_demo ''nonexistent_dir'')"
  by code_simp

lemma cd_demo_path: "resolve_path w_demo i_demo ''nonexistent_dir'' = ''/a/nonexistent_dir''"
  by code_simp

lemma cd_demo_exists: "\<not> os_path_exists w_demo ''/a/nonexistent_dir''"
  by code_simp

text \<open>
  C7. When the argument of \<open>cd\<close> resolves to a path that does not exist or is not a
  directory, \<open>cmd_cd\<close> returns \<open>success = False\<close> and the interpreter, with its
  \<open>current_directory\<close>, and the world are as before the call.
\<close>

theorem cd_failure_keeps_directory:
  "\<not> os_path_isdir w (resolve_path w st a) \<Longrightarrow>
     cmd_cd (a # as) (st, w)
       = (Inr (False,
               (if os_path_exists w (resolve_path w st a) then ''Not a directory: ''
                else ''Directory not found: '') @ resolve_path w st a, []),
          (st, w))"
  by (simp add: cmd_cd_def Let_def)

theorem cd_failure_keeps_directory_witness:
  "\<not> os_path_isdir w_demo (resolve_path w_demo i_demo ''nonexistent_dir'')
   \<and> cmd_cd [''nonexistent_dir''] (i_demo, w_demo)
       = (Inr (False, ''Directory not found: /a/nonexistent_dir'', []), (i_demo, w_demo))"
  using cd_failure_keeps_directory [OF cd_demo_missing, of "[]"] cd_demo_missing
  by (simp add: cd_demo_path cd_demo_exists)

lemma ex6_strip: "strip ''cat 'x'' \<noteq> [] \<and> strip ''frobnicate x'' \<noteq> [] \<and> strip ''LS -l'' \<noteq> []"
  by code_simp

lemma ex6_split_quote: "shlex_split ''cat 'x'' = Inl (Exn ValueError ''No closing quotation'')"
  by code_simp

lemma ex6_split_unknown: "shlex_split ''frobnicate x'' = Inr [''frobnicate'', ''x'']"
  by code_simp

lemma ex6_split_ls: "shlex_split ''LS -l'' = Inr [''LS'', ''-l'']"
  by code_simp

lemma ex6_lookup_unknown:
  "map_of (commands raising raising raising) (lower ''frobnicate'') = None"
  by code_simp

lemma ex6_lower_ls: "lower ''LS'' = ''ls''"
  by code_simp

lemma ex6_lookup_ls:
  "map_of (commands raising raising raising) (lower ''LS'') = Some raising"
  by (simp add: commands_def ex6_lower_ls)

text \<open>
  C6. For every command line, tokenizer and command table, \<open>execute\<close> returns a triple
  \<open>(success, message, output_lines)\<close> and raises nothing: when the tokenizer raises,
  when the command is not in the table and when the handler raises, the result is a
  failure triple with \<open>success = False\<close> and an error message.
\<close>

theorem execute_never_raises:
  "(\<exists>ok msg out s'. execute split cmds command_line s = (Inr (ok, msg, out), s'))
   \<and> (strip command_line \<noteq> [] \<and> split command_line = Inl e \<longrightarrow>
        fst (execute split cmds command_line s) = Inr (False, ''Error: '' @ str_exn e, []))
   \<and> (strip command_line \<noteq> [] \<and> split command_line = Inr (a # as)
        \<and> map_of cmds (lower a) = None \<longrightarrow>
        fst (execute split cmds command_line s)
          = Inr (False, ''Command not found: '' @ lower a, []))
   \<and> (strip command_line \<noteq> [] \<and> split command_line = Inr (a # as)
        \<and> map_of cmds (lower a) = Some h
        \<and> fst (h as (fst s\<lparr>history := history (fst s) @ [command_line],
                             history_position := length (history (fst s) @ [command_line])\<rparr>,
                      snd s)) = Inl e \<longrightarrow>
        fst (execute split cmds command_line s) = Inr (False, ''Error: '' @ str_exn e, []))"
  by (cases s)
    (auto simp: execute_def execute_try_def Let_def
          split: sum.splits list.splits option.splits prod.splits)

theorem execute_never_raises_witness:
  "fst (execute shlex_split (commands raising raising raising) ''cat 'x'' (i_demo, w_demo))
     = Inr (False, ''Error: No closing quotation'', [])
   \<and> fst (execute shlex_split (commands raising raising raising) ''frobnicate x'' (i_demo, w_demo))
     = Inr (False, ''Command not found: frobnicate'', [])
   \<and> fst (execute shlex_split (commands raising raising raising) ''LS -l'' (i_demo, w_demo))
     = Inr (False, ''Error: boom'', [])"
proof -
  have lo: "lower ''frobnicate'' = ''frobnicate''"
    by code_simp
  have r: "fst (raising [''-l''] x) = Inl (Exn OtherException ''boom'')" for x
    by (simp add: raising_def)
  show ?thesis
    using execute_never_raises
            [of shlex_split "commands raising raising raising" "''cat 'x''" "(i_demo, w_demo)"
                "Exn ValueError ''No closing quotation''"]
          execute_never_raises
            [of shlex_split "commands raising raising raising" "''frobnicate x''" "(i_demo, w_demo)"
                _ "''frobnicate''" "[''x'']"]
          execute_never_raises
            [of shlex_split "commands raising raising raising" "''LS -l''" "(i_demo, w_demo)"
                "Exn OtherException ''boom''" "''LS''" "[''-l'']" raising]
          ex6_strip ex6_split_quote ex6_split_unknown ex6_split_ls ex6_lookup_unknown
          ex6_lookup_ls lo r
    by simp
qed

section \<open>The \<open>FOUND_FILES_JSON\<close> convention\<close>

lemma find_char_range:
  "find_char c s = - 1 \<or> (0 \<le> find_char c s \<and> find_char c s < int (length s))"
  by (induction s) (auto simp: Let_def)

lemma rfind_char_range:
  "rfind_char c s = - 1 \<or> (0 \<le> rfind_char c s \<and> rfind_char c s < int (length s))"
  using find_char_range [of c "rev s"] by (auto simp: rfind_char_def Let_def)

lemma slice_nonempty:
  "0 \<le> a \<Longrightarrow> a < b \<Longrightarrow> a < int (length s) \<Longrightarrow> slice s a (b + 1) \<noteq> []"
  by (auto simp: slice_def)

lemma find_json_str_Cons:
  "find_json_str (l # rest) =
     (case json_candidate l of Some js \<Rightarrow> Some js | None \<Rightarrow> find_json_str rest)"
  by (simp add: json_candidate_def Let_def)

lemma json_candidate_nonempty: "json_candidate l = Some js \<Longrightarrow> js \<noteq> []"
  using find_char_range [of "CHR ''[''" "strip (drop (length found_files_prefix) (strip l))"]
  by (auto simp: json_candidate_def Let_def slice_nonempty split: if_splits)

lemma find_json_str_skip:
  "\<forall>x\<in>set pre. json_candidate x = None \<Longrightarrow> find_json_str (pre @ rest) = find_json_str rest"
  by (induction pre) (simp_all add: find_json_str_Cons del: find_json_str.simps(2))

lemma find_json_str_nonempty: "find_json_str ls = Some js \<Longrightarrow> js \<noteq> []"
  by (induction ls) (auto simp: find_json_str_Cons json_candidate_nonempty simp del: find_json_str.simps(2) split: option.splits)

lemma find_json_str_none:
  "\<forall>x\<in>set ls. json_candidate x = None \<Longrightarrow> find_json_str ls = None"
  using find_json_str_skip [of ls "[]"] by simp

lemma selections_append: "selections (xs @ ys) = selections xs @ selections ys"
  by (induction xs rule: selections.induct) simp_all

lemma logged_errors_append: "logged_errors (xs @ ys) = logged_errors xs @ logged_errors ys"
  by (induction xs rule: logged_errors.induct) simp_all

lemma handler_returns: "\<exists>evs. handle_llm_response loads chat text = Inr evs"
  by (simp add: handle_llm_response_def Let_def)

lemma handler_no_candidate:
  "find_json_str (split_on CHR 0x0A (strip text)) = None \<Longrightarrow>
     handle_llm_response loads chat text = Inr evs \<Longrightarrow>
     selections evs = [] \<and> logged_errors evs = []"
  by (auto simp: handle_llm_response_def Let_def selections_append logged_errors_append)

lemma handler_candidate:
  assumes "find_json_str (split_on CHR 0x0A (strip text)) = Some js"
    and "handle_llm_response loads chat text = Inr evs"
  shows "selections evs = (case paths_of (loads js) of None \<Rightarrow> [] | Some ps \<Rightarrow> [ps])"
    and "(\<exists>e. loads js = Inl e) \<Longrightarrow> logged_errors evs \<noteq> []"
proof -
  have ne: "js \<noteq> []" using assms(1) by (rule find_json_str_nonempty)
  show "selections evs = (case paths_of (loads js) of None \<Rightarrow> [] | Some ps \<Rightarrow> [ps])"
    using assms ne
    by (auto simp: handle_llm_response_def Let_def selections_append parse_found_files_def paths_of_def
             split: sum.splits json.splits exn.splits exn_class.splits if_splits)
  show "(\<exists>e. loads js = Inl e) \<Longrightarrow> logged_errors evs \<noteq> []"
    using assms ne
    by (auto simp: handle_llm_response_def Let_def logged_errors_append parse_found_files_def
             split: sum.splits json.splits exn.splits exn_class.splits if_splits)
qed

lemma ex3_candidate:
  \<open>json_candidate ''FOUND_FILES_JSON: ["/a/b.txt","/c/d.txt"]'' = Some ''["/a/b.txt","/c/d.txt"]''\<close>
  by code_simp

text \<open>
  C3, as amended. When the first line of the response that holds a bracket pair after
  the prefix \<open>FOUND_FILES_JSON:\<close> is the line
  \<open>FOUND_FILES_JSON: ["/a/b.txt","/c/d.txt"]\<close>, and \<open>json.loads\<close> reads its array,
  the handler asks for the selection of exactly \<open>["/a/b.txt", "/c/d.txt"]\<close>. When
  \<open>json.loads\<close> raises on the bracketed text of the first such line, nothing is
  selected, an error is logged and the handler does not raise. When no line holds a
  bracket pair after the prefix (a closing bracket is missing, say), nothing is selected,
  nothing is logged as an error and the handler does not raise.
\<close>

theorem found_files_extraction:
  \<open>(split_on CHR 0x0A (strip text) = pre @ ''FOUND_FILES_JSON: ["/a/b.txt","/c/d.txt"]'' # post
      \<and> (\<forall>x\<in>set pre. json_candidate x = None)
      \<and> loads ''["/a/b.txt","/c/d.txt"]'' = Inr (JList [JStr ''/a/b.txt'', JStr ''/c/d.txt''])
      \<longrightarrow> (\<exists>evs. handle_llm_response loads chat text = Inr evs
                 \<and> selections evs = [[''/a/b.txt'', ''/c/d.txt'']]))
   \<and> (find_json_str (split_on CHR 0x0A (strip text)) = Some js \<and> loads js = Inl e
      \<longrightarrow> (\<exists>evs. handle_llm_response loads chat text = Inr evs
                 \<and> selections evs = [] \<and> logged_errors evs \<noteq> []))
   \<and> (find_json_str (split_on CHR 0x0A (strip text)) = None
      \<longrightarrow> (\<exists>evs. handle_llm_response loads chat text = Inr evs
                 \<and> selections evs = [] \<and> logged_errors evs = []))\<close>
proof -
  obtain evs where evs: "handle_llm_response loads chat text = Inr evs"
    using handler_returns by blast
  let ?lines = "split_on CHR 0x0A (strip text)"
  let ?js = \<open>''["/a/b.txt","/c/d.txt"]''\<close>
  have 1: "selections evs = [[''/a/b.txt'', ''/c/d.txt'']]"
    if \<open>?lines = pre @ ''FOUND_FILES_JSON: ["/a/b.txt","/c/d.txt"]'' # post\<close>
      and "\<forall>x\<in>set pre. json_candidate x = None"
      and "loads ?js = Inr (JList [JStr ''/a/b.txt'', JStr ''/c/d.txt''])"
  proof -
    have "find_json_str ?lines = Some ?js"
      using that(1,2) ex3_candidate
      by (simp add: find_json_str_skip find_json_str_Cons del: find_json_str.simps(2))
    from handler_candidate(1) [OF this evs] that(3) show ?thesis
      by (simp add: paths_of_def)
  qed
  have 2: "selections evs = [] \<and> logged_errors evs \<noteq> []"
    if "find_json_str ?lines = Some js" and "loads js = Inl e"
    using handler_candidate [OF that(1) evs] that(2) by (simp add: paths_of_def)
  have 3: "selections evs = [] \<and> logged_errors evs = []" if "find_json_str ?lines = None"
    using handler_no_candidate [OF that evs] .
  show ?thesis using evs 1 2 3 by auto
qed

lemma ex3_lines:
  \<open>split_on CHR 0x0A (strip response_ok)
     = [''Here are the files:''] @ ''FOUND_FILES_JSON: ["/a/b.txt","/c/d.txt"]'' # [''Done.'']\<close>
  by code_simp

lemma ex3_pre: "\<forall>x\<in>set [''Here are the files:'']. json_candidate x = None"
  by code_simp

lemma ex3_loads:
  \<open>json_loads ''["/a/b.txt","/c/d.txt"]'' = Inr (JList [JStr ''/a/b.txt'', JStr ''/c/d.txt''])\<close>
  by code_simp

lemma ex3_bad:
  \<open>find_json_str (split_on CHR 0x0A (strip response_bad_json)) = Some ''["/a/b.txt",]''
    \<and> json_loads ''["/a/b.txt",]'' = Inl (Exn JSONDecodeError ''Expecting value'')\<close>
  by code_simp

theorem found_files_extraction_witness:
  \<open>map_sum id selections (handle_llm_response json_loads True response_ok)
     = Inr [[''/a/b.txt'', ''/c/d.txt'']]
   \<and> map_sum id selections (handle_llm_response json_loads True response_bad_json) = Inr []
   \<and> map_sum id logged_errors (handle_llm_response json_loads True response_bad_json) \<noteq> Inr []\<close>
proof -
  have "\<exists>evs. handle_llm_response json_loads True response_ok = Inr evs
          \<and> selections evs = [[''/a/b.txt'', ''/c/d.txt'']]"
    using found_files_extraction
            [of response_ok "[''Here are the files:'']" "[''Done.'']" json_loads True "[]"
                "Exn ValueError []"]
          ex3_lines ex3_pre ex3_loads
    by simp
  moreover have "\<exists>evs. handle_llm_response json_loads True response_bad_json = Inr evs
          \<and> selections evs = [] \<and> logged_errors evs \<noteq> []"
    using found_files_extraction
            [of response_bad_json "[]" "[]" json_loads True \<open>''["/a/b.txt",]''\<close>
                "Exn JSONDecodeError ''Expecting value''"]
          ex3_bad
    by simp
  ultimately show ?thesis by auto
qed

text \<open>
  The claim as stated fails twice: a response that contains the line after another
  \<open>FOUND_FILES_JSON\<close> line selects the other line's paths, and the malformed line
  \<open>FOUND_FILES_JSON: ["/a/b.txt"\<close> gives no selection but no logged error either.
\<close>

theorem found_files_extraction_counterexample:
  \<open>map_sum id selections (handle_llm_response json_loads True response_two_lines) = Inr [[''/x'']]
   \<and> json_loads ''["/a/b.txt"'' = Inl (Exn JSONDecodeError ''Expecting value'')
   \<and> map_sum id selections (handle_llm_response json_loads True response_unclosed) = Inr []
   \<and> map_sum id logged_errors (handle_llm_response json_loads True response_unclosed) = Inr []\<close>
  by code_simp

text \<open>
  C4, as amended. The response is scanned line by line; the first line that holds a
  bracket pair after the prefix \<open>FOUND_FILES_JSON:\<close> gives the only text that is
  parsed. When \<open>json.loads\<close> reads it as a list of strings, that list drives the
  selection; otherwise nothing is selected, whatever the later lines hold. When no line
  holds such a pair, nothing is selected.
\<close>

theorem first_bracketed_line_decides:
  "(split_on CHR 0x0A (strip text) = pre @ l # post
      \<and> (\<forall>x\<in>set pre. json_candidate x = None) \<and> json_candidate l = Some js
      \<longrightarrow> (\<exists>evs. handle_llm_response loads chat text = Inr evs
                 \<and> selections evs = (case paths_of (loads js) of None \<Rightarrow> [] | Some ps \<Rightarrow> [ps])))
   \<and> ((\<forall>x\<in>set (split_on CHR 0x0A (strip text)). json_candidate x = None)
      \<longrightarrow> (\<exists>evs. handle_llm_response loads chat text = Inr evs \<and> selections evs = []))"
proof -
  obtain evs where evs: "handle_llm_response loads chat text = Inr evs"
    using handler_returns by blast
  let ?lines = "split_on CHR 0x0A (strip text)"
  have 1: "selections evs = (case paths_of (loads js) of None \<Rightarrow> [] | Some ps \<Rightarrow> [ps])"
    if "?lines = pre @ l # post" and "\<forall>x\<in>set pre. json_candidate x = None"
      and "json_candidate l = Some js"
  proof -
    have "find_json_str ?lines = Some js"
      using that by (simp add: find_json_str_skip find_json_str_Cons del: find_json_str.simps(2))
    from handler_candidate(1) [OF this evs] show ?thesis .
  qed
  have 2: "selections evs = []" if "\<forall>x\<in>set ?lines. json_candidate x = None"
    using handler_no_candidate [OF find_json_str_none [OF that] evs] by simp
  show ?thesis using evs 1 2 by auto
qed

lemma ex4_lines:
  \<open>split_on CHR 0x0A (strip response_bad_then_good)
     = [] @ ''FOUND_FILES_JSON: [oops]'' # [''FOUND_FILES_JSON: ["/a"]'']\<close>
  by code_simp

lemma ex4_candidate: "json_candidate ''FOUND_FILES_JSON: [oops]'' = Some ''[oops]''"
  by code_simp

lemma ex4_loads: "paths_of (json_loads ''[oops]'') = None"
  by code_simp

theorem first_bracketed_line_decides_witness:
  "map_sum id selections (handle_llm_response json_loads False response_bad_then_good) = Inr []"
proof -
  have "\<exists>evs. handle_llm_response json_loads False response_bad_then_good = Inr evs
          \<and> selections evs = []"
    using first_bracketed_line_decides
            [of response_bad_then_good "[]" "''FOUND_FILES_JSON: [oops]''"
                \<open>[''FOUND_FILES_JSON: ["/a"]'']\<close> "''[oops]''" json_loads False]
          ex4_lines ex4_candidate ex4_loads
    by simp
  then show ?thesis by auto
qed

text \<open>
  The claim as stated fails: a first line with malformed JSON between brackets is parsed
  and rejected, and the well-formed array on the next line is not used.
\<close>

theorem later_well_formed_line_counterexample:
  \<open>json_loads ''[oops]'' = Inl (Exn JSONDecodeError ''Expecting value'')
   \<and> json_loads ''["/a"]'' = Inr (JList [JStr ''/a''])
   \<and> map_sum id selections (handle_llm_response json_loads True response_bad_then_good) = Inr []\<close>
  by code_simp

section \<open>Splitting, joining and normalising paths\<close>

lemma split_on_nonempty: "split_on c s \<noteq> []"
  by (induction s) (auto split: list.splits)

lemma py_join_Cons_char: "py_join sep ((x # w) # ws) = x # py_join sep (w # ws)"
  by (cases ws) simp_all

lemma py_join_split_on: "py_join [c] (split_on c s) = s"
proof (induction s)
  case Nil
  then show ?case by simp
next
  case (Cons x xs)
  obtain w ws where sp: "split_on c xs = w # ws"
    using split_on_nonempty [of c xs] by (cases "split_on c xs") auto
  show ?case using Cons sp by (simp add: py_join_Cons_char)
qed

lemma split_on_no_sep: "x \<in> set (split_on c s) \<Longrightarrow> c \<notin> set x"
  by (induction s arbitrary: x) (auto split: list.splits if_splits)

lemma split_on_sep_Cons: "split_on c (c # s) = [] # split_on c s"
  by simp

lemma split_on_no_sep_id: "c \<notin> set s \<Longrightarrow> split_on c s = [s]"
  by (induction s) auto

lemma split_on_append_sep: "split_on c (a @ c # b) = split_on c a @ split_on c b"
proof (induction a)
  case Nil
  then show ?case by simp
next
  case (Cons x xs)
  obtain w ws where sp: "split_on c xs = w # ws"
    using split_on_nonempty [of c xs] by (cases "split_on c xs") auto
  obtain w' ws' where sp': "split_on c (xs @ c # b) = w' # ws'"
    using split_on_nonempty [of c "xs @ c # b"] by (cases "split_on c (xs @ c # b)") auto
  show ?case using Cons sp sp' by auto
qed

lemma split_on_py_join:
  "cs \<noteq> [] \<Longrightarrow> \<forall>x\<in>set cs. c \<notin> set x \<Longrightarrow> split_on c (py_join [c] cs) = cs"
proof (induction cs)
  case Nil
  then show ?case by simp
next
  case (Cons x xs)
  show ?case
  proof (cases xs)
    case Nil
    then show ?thesis using Cons.prems by (simp add: split_on_no_sep_id)
  next
    case (Cons y ys)
    then show ?thesis using Cons.IH Cons.prems
      by (simp add: split_on_append_sep split_on_no_sep_id)
  qed
qed

lemma normpath_fold_proper:
  "0 < i \<Longrightarrow> \<forall>x\<in>set acc. proper_comp x \<Longrightarrow> \<forall>x\<in>set cs. CHR ''/'' \<notin> set x \<Longrightarrow>
     \<forall>x\<in>set (foldl (normpath_step i) acc cs). proper_comp x"
proof (induction cs arbitrary: acc)
  case Nil
  then show ?case by simp
next
  case (Cons c cs)
  have "\<forall>x\<in>set (normpath_step i acc c). proper_comp x"
    using Cons.prems
    by (auto simp: normpath_step_def proper_comp_def dest: in_set_butlastD)
  then show ?case using Cons.IH [of "normpath_step i acc c"] Cons.prems by simp
qed

lemma normpath_fold_id:
  "\<forall>x\<in>set cs. proper_comp x \<Longrightarrow> foldl (normpath_step i) acc cs = acc @ cs"
  by (induction cs arbitrary: acc) (auto simp: normpath_step_def proper_comp_def)

lemma normpath_fold_skip_empty:
  "foldl (normpath_step i) acc (replicate k [] @ cs) = foldl (normpath_step i) acc cs"
  by (induction k) (auto simp: normpath_step_def)

lemma py_join_Cons: "py_join sep (x # xs) = x @ (if xs = [] then [] else sep @ py_join sep xs)"
  by (cases xs) simp_all

lemma py_join_proper_head:
  "\<forall>x\<in>set cs. proper_comp x \<Longrightarrow> \<not> startswith (py_join ''/'' cs) ''/''"
proof (cases cs)
  case Nil
  then show ?thesis by (simp add: startswith_def)
next
  case (Cons x xs)
  assume "\<forall>x\<in>set cs. proper_comp x"
  then have "x \<noteq> []" and "CHR ''/'' \<notin> set x"
    using Cons by (auto simp: proper_comp_def)
  then obtain a r where "x = a # r" and "a \<noteq> CHR ''/''"
    by (cases x) auto
  then show ?thesis using Cons by (simp add: py_join_Cons startswith_def)
qed

lemma normpath_fixpoint:
  assumes i: "i = 1 \<or> i = 2" and pc: "\<forall>x\<in>set cs. proper_comp x"
  shows "os_path_normpath (replicate i CHR ''/'' @ py_join ''/'' cs)
           = replicate i CHR ''/'' @ py_join ''/'' cs"
proof -
  let ?j = "py_join ''/'' cs"
  let ?y = "replicate i CHR ''/'' @ ?j"
  have nh: "\<not> startswith ?j ''/''" using pc by (rule py_join_proper_head)
  have init: "(if startswith ?y ''/''
               then (if startswith ?y ''//'' \<and> \<not> startswith ?y ''///'' then 2 else 1)
               else (0::nat)) = i"
    using i nh by (auto simp: startswith_def numeral_2_eq_2)
  have sp: "split_on CHR ''/'' ?y = replicate i [] @ split_on CHR ''/'' ?j"
    using i by (auto simp: numeral_2_eq_2)
  have fold: "foldl (normpath_step i) [] (split_on CHR ''/'' ?j) = cs"
  proof (cases "cs = []")
    case True
    then show ?thesis by (simp add: normpath_step_def)
  next
    case False
    then have "split_on CHR ''/'' ?j = cs"
      using pc split_on_py_join [of cs "CHR ''/''"] by (simp add: proper_comp_def)
    then show ?thesis using pc by (simp add: normpath_fold_id)
  qed
  have ne: "?y \<noteq> []" using i by auto
  show ?thesis
    unfolding os_path_normpath_def Let_def init sp normpath_fold_skip_empty fold
    using ne by simp
qed

lemma normpath_absolute_shape:
  assumes "startswith x ''/''"
  shows "\<exists>i cs. (i = 1 \<or> i = 2) \<and> (\<forall>c\<in>set cs. proper_comp c)
            \<and> os_path_normpath x = replicate i CHR ''/'' @ py_join ''/'' cs"
proof -
  let ?i = "(if startswith x ''//'' \<and> \<not> startswith x ''///'' then 2 else 1) :: nat"
  let ?cs = "foldl (normpath_step ?i) [] (split_on CHR ''/'' x)"
  have ne: "x \<noteq> []" using assms by (auto simp: startswith_def)
  have "\<forall>c\<in>set ?cs. proper_comp c"
    by (rule normpath_fold_proper) (auto dest: split_on_no_sep)
  moreover have "os_path_normpath x = replicate ?i CHR ''/'' @ py_join ''/'' ?cs"
    using assms ne by (simp add: os_path_normpath_def Let_def)
  ultimately show ?thesis by (intro exI [of _ ?i] exI [of _ ?cs]) auto
qed

lemma normpath_idem_abs:
  assumes "startswith x ''/''"
  shows "os_path_normpath (os_path_normpath x) = os_path_normpath x"
proof -
  from normpath_absolute_shape [OF assms] obtain i cs
    where a: "i = 1 \<or> i = 2" and b: "\<forall>c\<in>set cs. proper_comp c"
      and c: "os_path_normpath x = replicate i CHR ''/'' @ py_join ''/'' cs"
    by blast
  show ?thesis unfolding c by (rule normpath_fixpoint [OF a b])
qed

lemma normpath_abs_is_abs: "startswith x ''/'' \<Longrightarrow> startswith (os_path_normpath x) ''/''"
  using normpath_absolute_shape [of x] by (auto simp: startswith_def numeral_2_eq_2)

lemma abspath_arg_abs:
  "startswith (if os_path_isabs p then p else os_path_join (os_getcwd w) p) ''/''"
  by (auto simp: os_path_isabs_def os_path_join_def os_getcwd_def startswith_def endswith_def)

lemma abspath_is_abs: "os_path_isabs (os_path_abspath w p)"
proof -
  have "startswith (os_path_abspath w p) ''/''"
    unfolding os_path_abspath_def by (rule normpath_abs_is_abs) (rule abspath_arg_abs)
  then show ?thesis by (simp add: os_path_isabs_def)
qed

lemma abspath_idem: "os_path_abspath w (os_path_abspath w p) = os_path_abspath w p"
proof -
  have "os_path_abspath w (os_path_abspath w p) = os_path_normpath (os_path_abspath w p)"
    using abspath_is_abs [of w p] by (simp add: os_path_abspath_def [of w "os_path_abspath w p"])
  also have "\<dots> = os_path_abspath w p"
    unfolding os_path_abspath_def by (rule normpath_idem_abs) (rule abspath_arg_abs)
  finally show ?thesis .
qed

section \<open>Saving metadata\<close>

lemma join_stored_tags:
  "py_join '','' (if t \<noteq> [] then split_on CHR '','' t else []) = t"
  using py_join_split_on [of "CHR '',''" t] by auto

lemma join_split_comma: "py_join '','' (split_on CHR '','' t) = t"
  by (rule py_join_split_on)

lemma get_metadata_fresh:
  "connected svc \<Longrightarrow>
   get_metadata w (os_path_abspath w p) svc
     = ((case file_metadata svc (os_path_abspath w p) of
           None \<Rightarrow> None
         | Some r \<Rightarrow>
             Some ((case row_tags r of None \<Rightarrow> [] | Some t \<Rightarrow> if t \<noteq> [] then split_on CHR '','' t else []),
                   row_notes r)),
        svc\<lparr>executed := executed svc @ [Select (os_path_abspath w p)]\<rparr>)"
  by (simp add: get_metadata_def Let_def abspath_idem split: option.splits)

text \<open>
  C5. For every path, tags and notes, and every state of the service, a second
  \<open>save_metadata\<close> with the same arguments writes nothing: the table, with every
  \<open>last_updated\<close>, is the one the first call left, and the only statement the second
  call executes is the \<open>SELECT\<close> of \<open>get_metadata\<close> (nothing at all without a
  connection) -- no \<open>INSERT\<close>, no \<open>UPDATE\<close>.
\<close>

theorem save_metadata_twice:
  "file_metadata (save_metadata w t2 p tags note_text (save_metadata w t1 p tags note_text svc))
     = file_metadata (save_metadata w t1 p tags note_text svc)
   \<and> executed (save_metadata w t2 p tags note_text (save_metadata w t1 p tags note_text svc))
     = executed (save_metadata w t1 p tags note_text svc)
       @ (if connected svc then [Select (os_path_abspath w p)] else [])"
proof (cases "connected svc")
  case False
  then show ?thesis by (simp add: save_metadata_def Let_def)
next
  case True
  let ?k = "os_path_abspath w p"
  let ?s1 = "save_metadata w t1 p tags note_text svc"
  have c1: "connected ?s1"
    using True by (auto simp: save_metadata_def get_metadata_fresh Let_def split: option.splits)
  show ?thesis
  proof (cases "file_metadata svc ?k")
    case None
    then show ?thesis
      using True
      by (cases tags; cases note_text)
         (simp_all add: save_metadata_def get_metadata_fresh Let_def join_stored_tags join_split_comma)
  next
    case (Some r)
    then show ?thesis
      using True
      by (cases tags; cases note_text; cases "row_tags r")
         (auto simp: save_metadata_def get_metadata_fresh Let_def join_stored_tags join_split_comma)
  qed
qed

theorem save_metadata_twice_witness:
  "executed (save_metadata w_demo 7 ''f'' (Some ['' x '', ''y'']) (Some ''hello'')
              (save_metadata w_demo 5 ''f'' (Some ['' x '', ''y'']) (Some ''hello'') m_demo))
     = [Select ''/a/f'', Insert ''/a/f'' ''x,y'' ''hello'', Select ''/a/f'']
   \<and> file_metadata (save_metadata w_demo 7 ''f'' (Some ['' x '', ''y'']) (Some ''hello'')
              (save_metadata w_demo 5 ''f'' (Some ['' x '', ''y'']) (Some ''hello'') m_demo)) ''/a/f''
     = Some \<lparr>row_tags = Some ''x,y'', row_notes = Some ''hello'', last_updated = 5\<rparr>"
proof -
  have a: "executed (save_metadata w_demo 5 ''f'' (Some ['' x '', ''y'']) (Some ''hello'') m_demo)
             = [Select ''/a/f'', Insert ''/a/f'' ''x,y'' ''hello'']"
    by code_simp
  have b: "file_metadata (save_metadata w_demo 5 ''f'' (Some ['' x '', ''y'']) (Some ''hello'') m_demo)
             ''/a/f''
             = Some \<lparr>row_tags = Some ''x,y'', row_notes = Some ''hello'', last_updated = 5\<rparr>"
    by code_simp
  have c: "os_path_abspath w_demo ''f'' = ''/a/f''"
    by code_simp
  have d: "connected m_demo"
    by (simp add: m_demo_def)
  show ?thesis
    using save_metadata_twice [of w_demo 7 "''f''" "Some ['' x '', ''y'']" "Some ''hello''" 5 m_demo]
          a b c d
    by simp
qed

section \<open>The tree\<close>

lemma lookup_append:
  "lookup t (q @ r) = (case lookup t q of None \<Rightarrow> None | Some n \<Rightarrow> lookup n r)"
proof (induction q arbitrary: t)
  case Nil
  then show ?case by simp
next
  case (Cons c cs)
  then show ?case by (cases t) (auto split: option.splits)
qed

lemma lookup_file_below: "lookup (File x) q = (if q = [] then Some (File x) else None)"
  by (cases q) simp_all


lemma kind_at_below_file:
  "kind_at t q = Some KFile \<Longrightarrow> r \<noteq> [] \<Longrightarrow> kind_at t (q @ r) = None"
proof -
  assume a: "kind_at t q = Some KFile" and r: "r \<noteq> []"
  then obtain n where n: "lookup t q = Some n" and k: "node_kind n = KFile"
    by (auto simp: kind_at_def)
  then obtain x where "n = File x" by (cases n) auto
  then show ?thesis using n r by (simp add: kind_at_def lookup_append lookup_file_below)
qed



lemma kind_at_fs_del:
  "q \<noteq> [] \<Longrightarrow> kind_at (fs_del t q) x = (if prefix q x then None else kind_at t x)"
proof (induction q arbitrary: t x)
  case Nil
  then show ?case by simp
next
  case (Cons c cs)
  show ?case
  proof (cases t)
    case (File y)
    then show ?thesis by (cases x; cases cs) (simp_all add: kind_at_def)
  next
    case (Dir es)
    show ?thesis
    proof (cases cs)
      case Nil
      then show ?thesis using Dir
        by (cases x) (simp_all add: kind_at_def delete_conv')
    next
      case (Cons c' cs')
      show ?thesis
      proof (cases "map_of es c")
        case None
        then show ?thesis using Dir Cons by (cases x) (auto simp: kind_at_def)
      next
        case (Some m)
        have ih: "kind_at (fs_del m cs) y = (if prefix cs y then None else kind_at m y)" for y
          using Cons.IH [of m y] Cons by simp
        show ?thesis
        proof (cases x)
          case Nil
          then show ?thesis using Dir Cons Some by (simp add: kind_at_def)
        next
          case (Cons d ds)
          then show ?thesis
            using Dir \<open>cs = c' # cs'\<close> Some ih [of ds]
            by (auto simp: kind_at_def update_conv')
        qed
      qed
    qed
  qed
qed









section \<open>Paths in a changing world\<close>

lemma os_kind_alt:
  "os_kind w s =
     (case locate w s of
        None \<Rightarrow> None
      | Some (q, slash) \<Rightarrow>
          (case kind_at (root w) q of
             None \<Rightarrow> None
           | Some k \<Rightarrow> if slash \<and> k = KFile then None else Some (q, k)))"
  by (auto simp: os_kind_def os_lookup_def kind_at_def split: option.splits)


lemma isdir_os_kind: "os_path_isdir w s = (\<exists>q. os_kind w s = Some (q, KDir))"
  by (auto simp: os_path_isdir_def os_kind_def split: option.splits)



lemma locate_transfer:
  assumes "cwd a = cwd b"
    and "\<And>x. kind_at (root a) x = Some KDir \<Longrightarrow> kind_at (root b) x = Some KDir"
    and "locate a s = Some r"
  shows "locate b s = Some r"
  using assms
  by (auto simp: locate_def Let_def list_all_iff split: if_splits)

lemma locate_place:
  "locate w s = Some (q, sl) \<Longrightarrow>
     q = last (trace (if os_path_isabs s then [] else cwd w) (fst (path_steps s)))
     \<and> sl = snd (path_steps s)"
  by (auto simp: locate_def Let_def split: if_splits)






lemma trace_nonempty: "trace cur cs \<noteq> []"
  by (cases cs) simp_all


lemma trace_append:
  "trace cur (xs @ ys) = butlast (trace cur xs) @ trace (last (trace cur xs)) ys"
  by (induction xs arbitrary: cur) (auto simp: trace_nonempty)

lemma trace_snoc:
  "trace cur (xs @ [c]) = trace cur xs @ [step_comp (last (trace cur xs)) c]"
  by (simp add: trace_append trace_nonempty)




section \<open>Deleting\<close>

lemma kind_at_file_root: "kind_at (File x) q \<noteq> Some KDir"
  by (cases q) (simp_all add: kind_at_def)

lemma file_not_root:
  assumes "os_lookup w s = Some (q, File x)"
  shows "q \<noteq> []"
proof
  assume q: "q = []"
  obtain sl where l: "locate w s = Some (q, sl)" and lk: "lookup (root w) q = Some (File x)"
    and sl: "\<not> sl"
    using assms by (auto simp: os_lookup_def split: option.splits if_splits)
  have rt: "root w = File x" using lk q by simp
  have "snd (path_steps s) = sl" using locate_place [OF l] by simp
  then have "fst (path_steps s) = split_on CHR ''/'' s"
    using sl by (auto simp: path_steps_def Let_def)
  then obtain c cs where st: "fst (path_steps s) = c # cs"
    using split_on_nonempty [of "CHR ''/''" s] by (cases "split_on CHR ''/'' s") auto
  let ?start = "if os_path_isabs s then [] else cwd w"
  have "list_all (\<lambda>q. kind_at (root w) q = Some KDir) (butlast (trace ?start (c # cs)))"
    using l st by (auto simp: locate_def Let_def split: if_splits)
  then have "kind_at (root w) ?start = Some KDir"
    by (simp add: trace_nonempty)
  then show False using rt kind_at_file_root by simp
qed














section \<open>\<open>rm\<close> and directories\<close>

lemma os_remove_keeps_dirs:
  assumes "os_remove w s = (e, w')" and "os_path_isdir w p"
  shows "os_path_isdir w' p"
proof (cases "os_lookup w s")
  case None
  then show ?thesis using assms by (simp add: os_remove_def)
next
  case (Some r)
  obtain q n where r: "r = (q, n)" by (cases r)
  show ?thesis
  proof (cases n)
    case (Dir es)
    then show ?thesis using assms Some r by (simp add: os_remove_def)
  next
    case (File x)
    then have q: "q \<noteq> []" using Some r file_not_root by simp
    have w': "w' = w\<lparr>root := fs_del (root w) q\<rparr>"
      using assms(1) Some r File by (simp add: os_remove_def)
    have kq: "kind_at (root w) q = Some KFile"
      using Some r File by (auto simp: os_lookup_def kind_at_def split: option.splits if_splits)
    have keep: "kind_at (root w') y = Some KDir" if d: "kind_at (root w) y = Some KDir" for y
    proof -
      have "\<not> prefix q y"
      proof
        assume "prefix q y"
        then obtain r where y: "y = q @ r" by (auto simp: prefix_def)
        show False
        proof (cases "r = []")
          case True
          then show False using y kq d by simp
        next
          case False
          then show False using y d kind_at_below_file [OF kq False] by simp
        qed
      qed
      then show ?thesis using d q w' by (simp add: kind_at_fs_del)
    qed
    obtain l where l: "os_kind w p = Some (l, KDir)"
      using assms(2) by (auto simp: isdir_os_kind)
    then obtain sl where lo: "locate w p = Some (l, sl)" and kl: "kind_at (root w) l = Some KDir"
      by (auto simp: os_kind_alt split: option.splits if_splits)
    have "locate w' p = Some (l, sl)"
      using lo keep w' by (intro locate_transfer [of w w']) auto
    then have "os_kind w' p = Some (l, KDir)"
      using keep [OF kl] by (simp add: os_kind_alt)
    then show ?thesis by (auto simp: isdir_os_kind)
  qed
qed

lemma delete_item_file_keeps_dirs:
  assumes "\<not> os_path_isdir w path" and "os_path_isdir w p"
  shows "os_path_isdir (snd (snd (delete_item path (st, w)))) p"
proof (cases "os_remove w path")
  case (Pair e w')
  then show ?thesis
    using assms os_remove_keeps_dirs [OF Pair assms(2)]
    by (cases e) (simp_all add: delete_item_def)
qed

text \<open>
  C8. Without \<open>-r\<close> and \<open>-rf\<close> among its arguments, \<open>rm\<close> on a path that
  resolves to an existing directory returns \<open>success = False\<close> and leaves the
  interpreter and the world as they were; and whatever its arguments are then, every
  directory of the world is still a directory after the call.
\<close>

theorem rm_needs_recursive_flag:
  assumes "''-r'' \<notin> set args" and "''-rf'' \<notin> set args"
  shows "(\<forall>a as. filter (\<lambda>arg. \<not> startswith arg ''-'') args = a # as
                  \<and> os_path_isdir w (resolve_path w st a)
            \<longrightarrow> cmd_rm args (st, w)
                  = (Inr (False, ''Cannot remove directory without -r option: ''
                                 @ resolve_path w st a, []), (st, w)))
         \<and> (\<forall>p. os_path_isdir w p \<longrightarrow> os_path_isdir (snd (snd (cmd_rm args (st, w)))) p)"
proof (intro conjI allI impI)
  fix a as
  assume "filter (\<lambda>arg. \<not> startswith arg ''-'') args = a # as \<and> os_path_isdir w (resolve_path w st a)"
  then show "cmd_rm args (st, w)
               = (Inr (False, ''Cannot remove directory without -r option: ''
                              @ resolve_path w st a, []), (st, w))"
    using assms by (auto simp: cmd_rm_def Let_def isdir_exists)
next
  fix p
  assume d: "os_path_isdir w p"
  show "os_path_isdir (snd (snd (cmd_rm args (st, w)))) p"
  proof (cases "filter (\<lambda>arg. \<not> startswith arg ''-'') args")
    case Nil
    then show ?thesis using d by (simp add: cmd_rm_def Let_def)
  next
    case (Cons a as)
    then show ?thesis
      using d assms delete_item_file_keeps_dirs [of w "resolve_path w st a" p st]
      by (auto simp: cmd_rm_def Let_def)
  qed
qed

lemma ex8_facts:
  "filter (\<lambda>arg. \<not> startswith arg ''-'') [''-f'', ''d''] = ''d'' # []
   \<and> os_path_isdir w_demo (resolve_path w_demo i_demo ''d'')
   \<and> resolve_path w_demo i_demo ''d'' = ''/a/d''"
  by code_simp

theorem rm_needs_recursive_flag_witness:
  "cmd_rm [''-f'', ''d''] (i_demo, w_demo)
     = (Inr (False, ''Cannot remove directory without -r option: /a/d'', []), (i_demo, w_demo))
   \<and> os_path_isdir (snd (snd (cmd_rm [''-f'', ''d''] (i_demo, w_demo)))) ''/a/d''"
proof -
  have "''-r'' \<notin> set [''-f'', ''d'']" and "''-rf'' \<notin> set [''-f'', ''d'']"
    by simp_all
  from rm_needs_recursive_flag [OF this, of w_demo i_demo] ex8_facts
  show ?thesis by auto
qed

section \<open>Where a joined path lies\<close>











lemma butlast_trace_snoc: "butlast (trace cur (xs @ [c])) = trace cur xs"
  by (simp add: trace_snoc)








section \<open>Moving and copying one item\<close>

















section \<open>Cut, copy and paste\<close>






end
